theory Spec2Isabelle
  imports Complex_Main
begin

section \<open>LocalBrain: the memory engine of \<^verbatim>\<open>src/content-script.js\<close>\<close>

text \<open>
  The theory embeds the class \<^verbatim>\<open>MemoryEngine\<close> (lines 3245 to 4049 of
  \<^verbatim>\<open>src/src/content-script.js\<close>): the text helpers of JavaScript that the class
  calls, the rule-based analysers, the TF-IDF scorer, and the operations on the list
  \<^verbatim>\<open>this.memories\<close> and on the map \<^verbatim>\<open>this.searchCache\<close>.

  A JavaScript string is a sequence of UTF-16 code units. The model takes \<open>string\<close>,
  whose characters are the code units U+0000 to U+00FF, so \<open>length\<close> is
  \<^verbatim>\<open>.length\<close> and \<open>take n\<close> is \<^verbatim>\<open>.substring(0, n)\<close> on such text.

  An operation takes the engine and returns the engine after the call next to its result.
  The engine is the one after \<^verbatim>\<open>init()\<close>, so the \<^verbatim>\<open>await this.init()\<close> at the
  head of an operation does nothing. What an operation reads from the browser (the clock,
  the random number, the location, the backend's analysis) is an argument. Of the class,
  the theory leaves out the exports, the statistics, \<^verbatim>\<open>searchMemories\<close>,
  \<^verbatim>\<open>getMemoriesPage\<close>, \<^verbatim>\<open>updateMemory\<close>, \<^verbatim>\<open>deduplicateMemories\<close> and the
  heuristics \<^verbatim>\<open>isWorthSaving\<close> and \<^verbatim>\<open>extractKeyFacts\<close>.
\<close>

subsection \<open>String primitives of the host language\<close>

text \<open>The class \<^verbatim>\<open>\s\<close> of a regular expression, and the characters that
  \<^verbatim>\<open>trim()\<close> removes: tab, line feed, vertical tab, form feed, carriage return,
  space and the no-break space U+00A0.\<close>

definition is_space :: "char \<Rightarrow> bool" where
  "is_space c = (of_char c \<in> {9, 10, 11, 12, 13, 32, 160 :: nat})"

text \<open>The class \<^verbatim>\<open>\w\<close>: ASCII letters, digits and the underscore.\<close>

definition is_word :: "char \<Rightarrow> bool" where
  "is_word c = (let n = (of_char c :: nat) in
     (48 \<le> n \<and> n \<le> 57) \<or> (65 \<le> n \<and> n \<le> 90) \<or> n = 95 \<or> (97 \<le> n \<and> n \<le> 122))"

text \<open>The letters that \<^verbatim>\<open>toLowerCase()\<close> changes: A to Z, and U+00C0 to U+00DE
  without the multiplication sign U+00D7. The lower-case letter is 32 code units further,
  which sets bit 5 of the code unit.\<close>

definition is_upper :: "char \<Rightarrow> bool" where
  "is_upper c = (let n = (of_char c :: nat) in
     (65 \<le> n \<and> n \<le> 90) \<or> (192 \<le> n \<and> n \<le> 222 \<and> n \<noteq> 215))"

fun toLower_char :: "char \<Rightarrow> char" where
  "toLower_char (Char b0 b1 b2 b3 b4 b5 b6 b7) =
     (if is_upper (Char b0 b1 b2 b3 b4 b5 b6 b7) then Char b0 b1 b2 b3 b4 True b6 b7
      else Char b0 b1 b2 b3 b4 b5 b6 b7)"

definition toLowerCase :: "string \<Rightarrow> string" where
  "toLowerCase s = map toLower_char s"

definition trim :: "string \<Rightarrow> string" where
  "trim s = rev (dropWhile is_space (rev (dropWhile is_space s)))"

definition starts_with :: "string \<Rightarrow> string \<Rightarrow> bool" where
  "starts_with s p = (take (length p) s = p)"

text \<open>\<^verbatim>\<open>s.includes(p)\<close>: the text \<open>p\<close> occurs in \<open>s\<close> at some position.\<close>

fun includes_str :: "string \<Rightarrow> string \<Rightarrow> bool" where
  "includes_str [] p = (p = [])"
| "includes_str (c # cs) p = (starts_with (c # cs) p \<or> includes_str cs p)"

text \<open>\<^verbatim>\<open>s.split(/[...]+/)\<close> for a character class: the pieces between the maximal
  runs of separator characters. A run at the start or at the end of the text leaves an
  empty piece there, and the empty text gives the one piece \<open>''''\<close>.\<close>

function split_on :: "(char \<Rightarrow> bool) \<Rightarrow> string \<Rightarrow> string list" where
  "split_on sep [] = [ [] ]"
| "split_on sep (c # cs) =
     (if sep c then [] # split_on sep (dropWhile sep cs)
      else (case split_on sep cs of w # ws \<Rightarrow> (c # w) # ws | [] \<Rightarrow> [ [c] ]))"
  by pat_completeness auto
termination
  by (relation "measure (\<lambda>(sep, s). length s)")
     (auto simp: le_imp_less_Suc length_dropWhile_le)

text \<open>\<^verbatim>\<open>xs.join(sep)\<close>.\<close>

fun join :: "string \<Rightarrow> string list \<Rightarrow> string" where
  "join sep [] = []"
| "join sep [x] = x"
| "join sep (x # y # ys) = x @ sep @ join sep (y # ys)"

text \<open>The rest of a text behind the first occurrence of a pattern, if it occurs.\<close>

fun after_first :: "string \<Rightarrow> string \<Rightarrow> string option" where
  "after_first p [] = (if p = [] then Some [] else None)"
| "after_first p (c # cs) =
     (if starts_with (c # cs) p then Some (drop (length p) (c # cs)) else after_first p cs)"

text \<open>\<^verbatim>\<open>[...new Set(xs)]\<close>: one copy of each element, in the order of the first
  occurrences.\<close>

definition uniq :: "'a list \<Rightarrow> 'a list" where
  "uniq xs = rev (remdups (rev xs))"

text \<open>\<^verbatim>\<open>String(n)\<close> for an integer: its decimal digits.\<close>

fun show_nat :: "nat \<Rightarrow> string" where
  "show_nat n =
     (if n < 10 then [''0123456789'' ! n] else show_nat (n div 10) @ [''0123456789'' ! (n mod 10)])"

declare show_nat.simps [simp del]

definition show_int :: "int \<Rightarrow> string" where
  "show_int i = (if i < 0 then CHR ''-'' # show_nat (nat (- i)) else show_nat (nat i))"

text \<open>\<^verbatim>\<open>xs.findIndex(p)\<close>: the position of the first element that satisfies \<open>p\<close>;
  \<open>None\<close> stands for \<^verbatim>\<open>-1\<close>.\<close>

fun findIndex :: "('a \<Rightarrow> bool) \<Rightarrow> 'a list \<Rightarrow> nat option" where
  "findIndex p [] = None"
| "findIndex p (x # xs) =
     (if p x then Some 0 else (case findIndex p xs of None \<Rightarrow> None | Some i \<Rightarrow> Some (Suc i)))"

subsection \<open>The rule-based analysers\<close>

text \<open>The test \<^verbatim>\<open>/```[\s\S]*```/.test(content)\<close>: three backquotes, anything, and
  three backquotes again.\<close>

definition has_code_fence :: "string \<Rightarrow> bool" where
  "has_code_fence content =
     (case after_first ''```'' content of None \<Rightarrow> False | Some r \<Rightarrow> includes_str r ''```'')"

text \<open>\<^verbatim>\<open>categorizeContent\<close> (lines 3734 to 3760): the keyword tests in the order of
  the source; the first that succeeds gives the category.\<close>

definition categorizeContent :: "string \<Rightarrow> string" where
  "categorizeContent content =
     (let text = toLowerCase content in
      if includes_str text ''code'' \<or> includes_str text ''function'' \<or> includes_str text ''api''
         \<or> has_code_fence content then ''code''
      else if includes_str text ''error'' \<or> includes_str text ''bug'' \<or> includes_str text ''fix''
         \<or> includes_str text ''issue'' then ''troubleshooting''
      else if includes_str text ''how to'' \<or> includes_str text ''tutorial''
         \<or> includes_str text ''guide'' \<or> includes_str text ''step'' then ''how-to''
      else if includes_str text ''explain'' \<or> includes_str text ''what is''
         \<or> includes_str text ''definition'' then ''explanation''
      else if includes_str text ''compare'' \<or> includes_str text ''difference''
         \<or> includes_str text ''vs'' then ''comparison''
      else if includes_str text ''best'' \<or> includes_str text ''recommend''
         \<or> includes_str text ''suggest'' then ''recommendation''
      else if includes_str text ''example'' \<or> includes_str text ''sample''
         \<or> includes_str text ''instance'' then ''example''
      else ''general'')"

text \<open>\<^verbatim>\<open>generateSummary\<close> (lines 3763 to 3770).\<close>

definition is_sentence_end :: "char \<Rightarrow> bool" where
  "is_sentence_end c = (c = CHR ''.'' \<or> c = CHR ''!'' \<or> c = CHR ''?'')"

definition summary_sentences :: "string \<Rightarrow> string list" where
  "summary_sentences content =
     filter (\<lambda>s. length (trim s) > 10) (split_on is_sentence_end content)"

definition generateSummary :: "string \<Rightarrow> string" where
  "generateSummary content =
     (let sentences = summary_sentences content in
      if length sentences = 0 then take 100 content
      else let summary = join ''. '' (take 3 sentences) in
           if length summary > 150 then take 150 summary @ ''...'' else summary)"

text \<open>\<^verbatim>\<open>extractTags\<close> (lines 3773 to 3794). \<^verbatim>\<open>content.match(/#[\w]+/g)\<close>
  gives the matches from left to right: a \<^verbatim>\<open>#\<close> and the longest run of word
  characters behind it, which must not be empty.\<close>

function hashtags :: "string \<Rightarrow> string list" where
  "hashtags [] = []"
| "hashtags (c # cs) =
     (if c = CHR ''#'' \<and> takeWhile is_word cs \<noteq> []
      then takeWhile is_word cs # hashtags (dropWhile is_word cs)
      else hashtags cs)"
  by pat_completeness auto
termination
  by (relation "measure length") (auto simp: le_imp_less_Suc length_dropWhile_le)

definition technicalTerms :: "string list" where
  "technicalTerms =
     [''javascript'', ''python'', ''react'', ''node'', ''api'', ''database'', ''server'',
      ''client'', ''html'', ''css'', ''sql'', ''git'', ''docker'', ''aws'', ''cloud'',
      ''security'', ''performance'']"

definition extractTags :: "string \<Rightarrow> string list" where
  "extractTags content =
     (let text = toLowerCase content in
      uniq (hashtags content @ filter (\<lambda>term. includes_str text term) technicalTerms))"

subsection \<open>Numbers\<close>

text \<open>A JavaScript number is a double. The model keeps the three kinds of value that
  decide the control flow here: \<^verbatim>\<open>NaN\<close>, the two infinities, and the finite
  numbers, which it takes as real numbers (rounding is not modelled).\<close>

datatype number = NaN | PosInfinity | NegInfinity | Fin real

text \<open>Division of a count by a count, \<^verbatim>\<open>a / b\<close>.\<close>

definition div_counts :: "nat \<Rightarrow> nat \<Rightarrow> number" where
  "div_counts a b =
     (if b = 0 then (if a = 0 then NaN else PosInfinity) else Fin (real a / real b))"

text \<open>\<^verbatim>\<open>x > y\<close> for a literal \<open>y\<close>: false when \<open>x\<close> is \<^verbatim>\<open>NaN\<close>.\<close>

fun num_gt :: "number \<Rightarrow> real \<Rightarrow> bool" where
  "num_gt NaN y = False"
| "num_gt PosInfinity y = True"
| "num_gt NegInfinity y = False"
| "num_gt (Fin x) y = (y < x)"

text \<open>\<^verbatim>\<open>x + y\<close> and \<^verbatim>\<open>x * y\<close> on numbers, and \<^verbatim>\<open>x / n\<close> for a count \<open>n\<close>.\<close>

definition num_add :: "number \<Rightarrow> number \<Rightarrow> number" where
  "num_add x y =
     (case x of
        NaN \<Rightarrow> NaN
      | Fin a \<Rightarrow> (case y of Fin b \<Rightarrow> Fin (a + b) | _ \<Rightarrow> y)
      | PosInfinity \<Rightarrow> (case y of NaN \<Rightarrow> NaN | NegInfinity \<Rightarrow> NaN | _ \<Rightarrow> PosInfinity)
      | NegInfinity \<Rightarrow> (case y of NaN \<Rightarrow> NaN | PosInfinity \<Rightarrow> NaN | _ \<Rightarrow> NegInfinity))"

definition inf_of_sign :: "real \<Rightarrow> number" where
  "inf_of_sign x = (if x = 0 then NaN else if 0 < x then PosInfinity else NegInfinity)"

definition num_mul :: "number \<Rightarrow> number \<Rightarrow> number" where
  "num_mul x y =
     (case x of
        NaN \<Rightarrow> NaN
      | Fin a \<Rightarrow>
          (case y of
             NaN \<Rightarrow> NaN
           | Fin b \<Rightarrow> Fin (a * b)
           | PosInfinity \<Rightarrow> inf_of_sign a
           | NegInfinity \<Rightarrow> inf_of_sign (- a))
      | PosInfinity \<Rightarrow>
          (case y of
             NaN \<Rightarrow> NaN
           | Fin b \<Rightarrow> inf_of_sign b
           | PosInfinity \<Rightarrow> PosInfinity
           | NegInfinity \<Rightarrow> NegInfinity)
      | NegInfinity \<Rightarrow>
          (case y of
             NaN \<Rightarrow> NaN
           | Fin b \<Rightarrow> inf_of_sign (- b)
           | PosInfinity \<Rightarrow> NegInfinity
           | NegInfinity \<Rightarrow> PosInfinity))"

fun num_div_count :: "number \<Rightarrow> nat \<Rightarrow> number" where
  "num_div_count NaN n = NaN"
| "num_div_count PosInfinity n = PosInfinity"
| "num_div_count NegInfinity n = NegInfinity"
| "num_div_count (Fin x) n = (if n = 0 then inf_of_sign x else Fin (x / real n))"

subsection \<open>Memory records and the engine\<close>

text \<open>The object that \<^verbatim>\<open>saveMemory\<close> builds (lines 3297 to 3308). The field
  \<^verbatim>\<open>id\<close> is \<open>id_m\<close> here. \<^verbatim>\<open>lastUpdated\<close> is absent until the record is
  merged into. \<open>metadata\<close> holds the further properties that the caller's
  \<^verbatim>\<open>metadata\<close> object spreads into the record. At the call sites its keys are
  \<^verbatim>\<open>type\<close>, \<^verbatim>\<open>platform\<close>, \<^verbatim>\<open>conversation_url\<close>, \<^verbatim>\<open>structured\<close>,
  \<^verbatim>\<open>userInput\<close> and \<^verbatim>\<open>aiOutput\<close>: none is a field that \<^verbatim>\<open>saveMemory\<close>
  sets itself, so the spread adds properties and replaces none, and the engine reads none
  of them.\<close>

record memory =
  id_m :: real
  content :: string
  timestamp :: int
  lastUpdated :: "int option"
  source :: string
  url :: string
  conversationId :: string
  category :: string
  summary :: string
  tags :: "string list"
  metadata :: "(string \<times> string) list"

text \<open>A document \<^verbatim>\<open>{...memory, terms}\<close> and a scored document
  \<^verbatim>\<open>{...doc, score}\<close> (lines 3439 to 3448).\<close>

record 'm document =
  doc :: 'm
  terms :: "string list"

record 'm scored = "'m document" +
  score :: number

text \<open>A cache entry \<^verbatim>\<open>{results, timestamp}\<close> (lines 3390 to 3393).\<close>

record 'm cache_entry =
  results :: "'m scored list"
  cached_at :: int

text \<open>The fields of the engine (lines 3246 to 3254), after \<^verbatim>\<open>init()\<close> has run. The
  type \<open>'m\<close> is the type of the elements of \<^verbatim>\<open>this.memories\<close>: \<open>memory\<close> for
  the records that \<^verbatim>\<open>saveMemory\<close> builds.\<close>

record 'm engine =
  memories :: "'m list"
  maxMemories :: nat
  pageSize :: nat
  searchCache :: "string \<rightharpoonup> 'm cache_entry"
  cacheTimeout :: int

definition new_engine :: "'m engine" where
  "new_engine = \<lparr> memories = [], maxMemories = 1000, pageSize = 50,
                   searchCache = Map.empty, cacheTimeout = 5 * 60 * 1000 \<rparr>"

subsection \<open>Duplicate detection\<close>

text \<open>\<^verbatim>\<open>calculateSimilarity\<close> (lines 3355 to 3362). \<^verbatim>\<open>new Set(xs)\<close> keeps one
  copy of each element, as \<open>uniq\<close> does.\<close>

definition word_list :: "string \<Rightarrow> string list" where
  "word_list text = uniq (split_on is_space (toLowerCase text))"

definition calculateSimilarity :: "string \<Rightarrow> string \<Rightarrow> number" where
  "calculateSimilarity text1 text2 =
     (let words1 = word_list text1;
          words2 = word_list text2;
          intersection = uniq (filter (\<lambda>x. x \<in> set words2) words1);
          union = uniq (words1 @ words2)
      in div_counts (length intersection) (length union))"

text \<open>\<^verbatim>\<open>isDuplicate\<close> (lines 3348 to 3353).\<close>

definition isDuplicate :: "memory engine \<Rightarrow> memory \<Rightarrow> bool" where
  "isDuplicate s newMemory =
     list_ex (\<lambda>m. content m = content newMemory
                  \<or> num_gt (calculateSimilarity (content m) (content newMemory)) 0.85)
             (memories s)"

subsection \<open>The TF-IDF scorer\<close>

text \<open>\<^verbatim>\<open>preprocessText\<close> (lines 3452 to 3477). The stopwords are the literal of the
  source.\<close>

definition stopwords :: "string list" where
  "stopwords =
     [''the'', ''a'', ''an'', ''and'', ''or'', ''but'', ''in'', ''on'', ''at'', ''to'', ''for'',
      ''of'', ''with'', ''by'',
      ''is'', ''are'', ''was'', ''were'', ''be'', ''been'', ''being'', ''have'', ''has'', ''had'',
      ''do'', ''does'', ''did'',
      ''will'', ''would'', ''could'', ''should'', ''may'', ''might'', ''must'', ''can'', ''shall'',
      ''i'', ''you'', ''he'', ''she'', ''it'', ''we'', ''they'', ''me'', ''him'', ''her'', ''us'',
      ''them'',
      ''my'', ''your'', ''his'', ''her'', ''its'', ''our'', ''their'', ''this'', ''that'',
      ''these'', ''those'',
      ''what'', ''where'', ''when'', ''why'', ''how'', ''which'', ''who'', ''whom'', ''whose'',
      ''if'', ''then'', ''else'', ''so'', ''because'', ''since'', ''while'', ''during'',
      ''before'', ''after'',
      ''above'', ''below'', ''up'', ''down'', ''out'', ''off'', ''over'', ''under'', ''again'',
      ''further'',
      ''once'', ''here'', ''there'', ''everywhere'', ''anywhere'', ''somewhere'', ''nowhere'',
      ''all'', ''any'', ''both'', ''each'', ''few'', ''more'', ''most'', ''other'', ''some'',
      ''such'',
      ''no'', ''nor'', ''not'', ''only'', ''own'', ''same'', ''than'', ''too'', ''very'', ''just'',
      ''now'']"

definition preprocessText :: "string \<Rightarrow> string list" where
  "preprocessText text =
     (if text = [] then []
      else let words = filter (\<lambda>word. length word > 2)
                        (split_on is_space
                          (map (\<lambda>c. if \<not> is_word c \<and> \<not> is_space c then CHR '' '' else c)
                               (toLowerCase text)))
           in filter (\<lambda>word. word \<notin> set stopwords) words)"

text \<open>\<^verbatim>\<open>getTermFrequencies\<close> (lines 3503 to 3509) counts in an object literal
  \<^verbatim>\<open>{}\<close>. Reading a property of such an object looks at its own properties and then at
  \<^verbatim>\<open>Object.prototype\<close>. The terms are lower-case words, and two names of
  \<^verbatim>\<open>Object.prototype\<close> are lower-case words: \<^verbatim>\<open>constructor\<close>, the function
  \<^verbatim>\<open>Object\<close>, and the accessor \<^verbatim>\<open>__proto__\<close>, which reads as
  \<^verbatim>\<open>Object.prototype\<close> and whose setter ignores a value that is not an object.
  So the value of a property is a count, a text, or one of these two objects.\<close>

datatype propval = Count nat | Text string | ObjectFunction | ObjectPrototype

definition get_prop :: "(string \<rightharpoonup> propval) \<Rightarrow> string \<Rightarrow> propval option" where
  "get_prop obj key =
     (if key = ''__proto__'' then Some ObjectPrototype
      else case obj key of
             Some v \<Rightarrow> Some v
           | None \<Rightarrow> if key = ''constructor'' then Some ObjectFunction else None)"

definition set_prop :: "(string \<rightharpoonup> propval) \<Rightarrow> string \<Rightarrow> propval \<Rightarrow> (string \<rightharpoonup> propval)" where
  "set_prop obj key v = (if key = ''__proto__'' then obj else obj(key \<mapsto> v))"

text \<open>\<^verbatim>\<open>x || 0\<close>: the value \<^verbatim>\<open>undefined\<close> (here \<open>None\<close>), the number 0 and the
  empty text are falsy.\<close>

fun or_zero :: "propval option \<Rightarrow> propval" where
  "or_zero None = Count 0"
| "or_zero (Some (Count n)) = Count n"
| "or_zero (Some (Text t)) = (if t = [] then Count 0 else Text t)"
| "or_zero (Some v) = v"

text \<open>\<^verbatim>\<open>x + 1\<close>: addition on a number; on anything else the concatenation of its text
  with \<^verbatim>\<open>"1"\<close>.\<close>

fun plus_one :: "propval \<Rightarrow> propval" where
  "plus_one (Count n) = Count (n + 1)"
| "plus_one (Text t) = Text (t @ ''1'')"
| "plus_one ObjectFunction = Text ''function Object() { [native code] }1''"
| "plus_one ObjectPrototype = Text ''[object Object]1''"

text \<open>The conversion to a number that \<^verbatim>\<open>/\<close> applies. The texts that
  \<open>plus_one\<close> builds begin with \<^verbatim>\<open>function\<close> or \<^verbatim>\<open>[object\<close>: none is a numeral.\<close>

fun to_number :: "propval \<Rightarrow> number" where
  "to_number (Count n) = Fin (real n)"
| "to_number (Text t) = NaN"
| "to_number ObjectFunction = NaN"
| "to_number ObjectPrototype = NaN"

definition getTermFrequencies :: "string list \<Rightarrow> (string \<rightharpoonup> propval)" where
  "getTermFrequencies ts =
     fold (\<lambda>term frequencies.
             set_prop frequencies term (plus_one (or_zero (get_prop frequencies term))))
          ts Map.empty"

text \<open>\<^verbatim>\<open>calculateIDF\<close> (lines 3512 to 3521).\<close>

definition calculateIDF :: "string \<Rightarrow> 'm document list \<Rightarrow> number" where
  "calculateIDF term documents =
     (let documentsWithTerm = length (filter (\<lambda>d. term \<in> set (terms d)) documents) in
      if documentsWithTerm = 0 then Fin 0
      else Fin (ln (real (length documents) / real documentsWithTerm)))"

text \<open>\<^verbatim>\<open>calculateDocumentScore\<close> (lines 3480 to 3500).\<close>

definition calculateDocumentScore ::
  "string list \<Rightarrow> string list \<Rightarrow> 'm document list \<Rightarrow> number" where
  "calculateDocumentScore queryTerms docTerms allDocuments =
     (let docTermCounts = getTermFrequencies docTerms;
          docLength = length docTerms;
          score = fold (\<lambda>queryTerm score.
                    let tf = num_div_count (to_number (or_zero (get_prop docTermCounts queryTerm)))
                                           (max docLength 1);
                        idf = calculateIDF queryTerm allDocuments
                    in num_add score (num_mul tf idf))
                  queryTerms (Fin 0)
      in num_div_count score (max (length queryTerms) 1))"

text \<open>\<^verbatim>\<open>calculateTFIDFScores\<close> (lines 3435 to 3449). The text of a document is
  \<^verbatim>\<open>memory.content + ' ' + (memory.summary || '') + ' ' + (memory.tags || []).join(' ')\<close>.\<close>

definition document_text :: "memory \<Rightarrow> string" where
  "document_text memory =
     content memory @ '' '' @ summary memory @ '' '' @ join '' '' (tags memory)"

definition calculateTFIDFScores :: "string \<Rightarrow> memory list \<Rightarrow> memory scored list" where
  "calculateTFIDFScores query ms =
     (if length ms = 0 then []
      else let queryTerms = preprocessText query;
               documents = map (\<lambda>memory.
                    \<lparr> doc = memory, terms = preprocessText (document_text memory) \<rparr>)
                  ms
           in map (\<lambda>d. \<lparr> doc = doc d, terms = terms d,
                          score = calculateDocumentScore queryTerms (terms d) documents \<rparr>)
                  documents)"

subsection \<open>The environment of a call\<close>

text \<open>What a call reads from the browser: the clock \<^verbatim>\<open>Date.now()\<close> in milliseconds,
  the value of \<^verbatim>\<open>Math.random()\<close>, \<^verbatim>\<open>window.location.hostname\<close> and
  \<^verbatim>\<open>window.location.href\<close>, and the analysis of
  \<^verbatim>\<open>window.backendIntegration\<close>: category, summary and tags of a content, or \<open>None\<close>
  when there is no backend object or one of its three calls throws (lines 3280 to 3295).
  One call of an operation reads the clock once.\<close>

record env =
  now :: int
  random :: real
  hostname :: string
  href :: string
  backend :: "string \<Rightarrow> (string \<times> string \<times> string list) option"

subsection \<open>Searching\<close>

text \<open>The comparator \<^verbatim>\<open>(a, b) => b.score - a.score\<close> of a stable sort: descending
  scores, and equal scores in the order they had. An element goes in front of the first
  one whose score is not greater than its own.\<close>

definition score_gt :: "number \<Rightarrow> number \<Rightarrow> bool" where
  "score_gt x y =
     (case x of
        NaN \<Rightarrow> False
      | NegInfinity \<Rightarrow> False
      | PosInfinity \<Rightarrow> (case y of Fin b \<Rightarrow> True | NegInfinity \<Rightarrow> True | _ \<Rightarrow> False)
      | Fin a \<Rightarrow> (case y of Fin b \<Rightarrow> b < a | NegInfinity \<Rightarrow> True | _ \<Rightarrow> False))"

fun insert_by_score :: "'m scored \<Rightarrow> 'm scored list \<Rightarrow> 'm scored list" where
  "insert_by_score x [] = [x]"
| "insert_by_score x (y # ys) =
     (if score_gt (score y) (score x) then y # insert_by_score x ys else x # y # ys)"

definition sort_by_score :: "'m scored list \<Rightarrow> 'm scored list" where
  "sort_by_score xs = foldr insert_by_score xs []"

text \<open>The value that \<^verbatim>\<open>getRelevantMemories\<close> returns: records of the collection
  as they are, or scored documents.\<close>

datatype 'm found = Recent "'m list" | Ranked "'m scored list"

text \<open>\<^verbatim>\<open>getRelevantMemories\<close> (lines 3365 to 3396). \<^verbatim>\<open>xs.slice(a, b)\<close> with
  \<open>a \<le> b\<close> is \<open>take (b - a) (drop a xs)\<close>; \<open>limit\<close> and \<open>page\<close> are
  counts.\<close>

definition cacheKey :: "string \<Rightarrow> nat \<Rightarrow> nat \<Rightarrow> string" where
  "cacheKey query limit page = query @ ''_'' @ show_nat limit @ ''_'' @ show_nat page"

definition getRelevantMemories ::
  "env \<Rightarrow> string \<Rightarrow> nat \<Rightarrow> nat \<Rightarrow> memory engine \<Rightarrow> memory found \<times> memory engine" where
  "getRelevantMemories e query limit page s =
     (if query = [] \<or> length (trim query) < 3
      then (let start = page * pageSize s in
            (Recent (take limit (drop start (memories s))), s))
      else let key = cacheKey query limit page;
               fresh =
                 (let scored = calculateTFIDFScores query (memories s);
                      rs = take limit (drop (page * limit)
                             (sort_by_score (filter (\<lambda>m. num_gt (score m) 0.05) scored)))
                  in (Ranked rs,
                      s\<lparr> searchCache := (searchCache s)(key \<mapsto> \<lparr> results = rs, cached_at = now e \<rparr>) \<rparr>))
           in case searchCache s key of
                Some cached \<Rightarrow>
                  if now e - cached_at cached < cacheTimeout s then (Ranked (results cached), s)
                  else fresh
              | None \<Rightarrow> fresh)"

subsection \<open>Saving\<close>

text \<open>\<^verbatim>\<open>getCurrentConversationId\<close> (lines 3678 to 3683).\<close>

definition getCurrentConversationId :: "env \<Rightarrow> string" where
  "getCurrentConversationId e = href e @ ''_'' @ show_int (now e div (1000 * 60 * 30))"

text \<open>\<^verbatim>\<open>findActiveConversation\<close> (lines 3685 to 3697): the first record of the same
  conversation that is less than 30 minutes old.\<close>

definition is_active :: "env \<Rightarrow> memory \<Rightarrow> memory \<Rightarrow> bool" where
  "is_active e newMemory m =
     (let timeDiff = now e - timestamp m;
          sameConversation = (conversationId m = conversationId newMemory);
          isRecent = (timeDiff < 30 * 60 * 1000)
      in sameConversation \<and> isRecent)"

definition findActiveConversation :: "memory engine \<Rightarrow> env \<Rightarrow> memory \<Rightarrow> memory option" where
  "findActiveConversation s e newMemory = find (is_active e newMemory) (memories s)"

text \<open>The record that \<^verbatim>\<open>find\<close> returns is an element of the list, and the source
  assigns to its fields: in the list, the first element that satisfies the test changes.\<close>

fun replace_first :: "('a \<Rightarrow> bool) \<Rightarrow> 'a \<Rightarrow> 'a list \<Rightarrow> 'a list" where
  "replace_first p y [] = []"
| "replace_first p y (x # xs) = (if p x then y # xs else x # replace_first p y xs)"

text \<open>\<^verbatim>\<open>saveMemory\<close> (lines 3274 to 3345). The result is the record returned, or
  \<open>None\<close> for \<^verbatim>\<open>null\<close>, and the engine after the call. \<^verbatim>\<open>persist()\<close> writes
  the list to the browser's storage and catches every failure (lines 3585 to 3591): it
  does not change the engine. The id is the exact sum of the clock and the random number;
  the source rounds the sum to a double. No operation computes with an id: ids are only
  compared.\<close>

definition saveMemory ::
  "env \<Rightarrow> string \<Rightarrow> (string \<times> string) list \<Rightarrow> memory engine \<Rightarrow> memory option \<times> memory engine" where
  "saveMemory e text md s =
     (let (cat, summ, tgs) =
            (case backend e text of
               Some a \<Rightarrow> a
             | None \<Rightarrow> (categorizeContent text, generateSummary text, extractTags text));
          memory = \<lparr> id_m = real_of_int (now e) + random e,
                     content = trim text,
                     timestamp = now e,
                     lastUpdated = None,
                     source = hostname e,
                     url = href e,
                     conversationId = getCurrentConversationId e,
                     category = cat,
                     summary = summ,
                     tags = tgs,
                     metadata = md \<rparr>
      in if isDuplicate s memory then (None, s)
         else case findActiveConversation s e memory of
                Some existingConversation \<Rightarrow>
                  (let appended = content existingConversation @ [CHR 0x0A, CHR 0x0A] @ content memory;
                       merged = existingConversation
                                  \<lparr> content := appended,
                                    timestamp := now e,
                                    lastUpdated := Some (now e),
                                    category := categorizeContent appended,
                                    summary := generateSummary appended,
                                    tags := extractTags appended \<rparr>
                   in (Some merged,
                       s\<lparr> memories := replace_first (is_active e memory) merged (memories s) \<rparr>))
              | None \<Rightarrow>
                  (let ms = memory # memories s;
                       ms' = (if length ms > maxMemories s then take (maxMemories s) ms else ms)
                   in (Some memory, s\<lparr> memories := ms', searchCache := Map.empty \<rparr>)))"

subsection \<open>Deleting and cleaning up\<close>

text \<open>\<^verbatim>\<open>deleteMemoryById\<close> (lines 3995 to 4004); \<^verbatim>\<open>splice(index, 1)\<close> removes
  the element at the index.\<close>

definition deleteMemoryById :: "real \<Rightarrow> memory engine \<Rightarrow> bool \<times> memory engine" where
  "deleteMemoryById i s =
     (case findIndex (\<lambda>m. id_m m = i) (memories s) of
        Some index \<Rightarrow>
          (True, s\<lparr> memories := take index (memories s) @ drop (Suc index) (memories s),
                    searchCache := Map.empty \<rparr>)
      | None \<Rightarrow> (False, s))"

text \<open>\<^verbatim>\<open>deleteMemory\<close> (lines 3579 to 3583), \<^verbatim>\<open>clearAllMemories\<close> (lines 3573 to
  3577) and \<^verbatim>\<open>cleanupOldMemories\<close> (lines 3978 to 3992).\<close>

definition deleteMemory :: "real \<Rightarrow> memory engine \<Rightarrow> memory engine" where
  "deleteMemory i s =
     s\<lparr> memories := filter (\<lambda>m. id_m m \<noteq> i) (memories s), searchCache := Map.empty \<rparr>"

definition clearAllMemories :: "'m engine \<Rightarrow> 'm engine" where
  "clearAllMemories s = s\<lparr> memories := [], searchCache := Map.empty \<rparr>"

definition cleanupOldMemories :: "env \<Rightarrow> memory engine \<Rightarrow> memory engine" where
  "cleanupOldMemories e s =
     (let maxAge = 90 * 24 * 60 * 60 * 1000 in
      s\<lparr> memories := filter (\<lambda>memory. now e - timestamp memory < maxAge) (memories s) \<rparr>)"

subsection \<open>Importing\<close>

text \<open>\<^verbatim>\<open>importMemories\<close> (lines 3902 to 3932) stores what \<^verbatim>\<open>JSON.parse\<close> returns
  and reads nothing of an element but its \<^verbatim>\<open>id\<close>, so the model leaves the type of
  the elements open. The result of \<^verbatim>\<open>JSON.parse(jsonData)\<close> is the input: the
  parser threw a \<^verbatim>\<open>SyntaxError\<close> with a message, or the value is not an array, or it
  is an array of elements.\<close>

datatype 'm parsed = SyntaxError string | NotArray | Array "'m list"

datatype error = Error string

record import_result =
  imported :: nat
  total :: nat

text \<open>Reading \<^verbatim>\<open>m.id\<close> of each element in turn; the first \<^verbatim>\<open>TypeError\<close> ends
  the loop, with its message.\<close>

fun read_ids :: "('m \<Rightarrow> string + 'k) \<Rightarrow> 'm list \<Rightarrow> string + 'k list" where
  "read_ids read_id [] = Inr []"
| "read_ids read_id (m # ms) =
     (case read_id m of
        Inl msg \<Rightarrow> Inl msg
      | Inr k \<Rightarrow> (case read_ids read_id ms of Inl msg \<Rightarrow> Inl msg | Inr ks \<Rightarrow> Inr (k # ks)))"

text \<open>\<^verbatim>\<open>importedMemories.filter(m => !existingIds.has(m.id))\<close>; \<open>same\<close> is the
  equality of \<^verbatim>\<open>Set.prototype.has\<close>.\<close>

fun filter_new ::
  "('m \<Rightarrow> string + 'k) \<Rightarrow> ('k \<Rightarrow> 'k \<Rightarrow> bool) \<Rightarrow> 'k list \<Rightarrow> 'm list \<Rightarrow> string + 'm list" where
  "filter_new read_id same existingIds [] = Inr []"
| "filter_new read_id same existingIds (m # ms) =
     (case read_id m of
        Inl msg \<Rightarrow> Inl msg
      | Inr k \<Rightarrow>
          (case filter_new read_id same existingIds ms of
             Inl msg \<Rightarrow> Inl msg
           | Inr rest \<Rightarrow> Inr (if list_ex (same k) existingIds then rest else m # rest)))"

text \<open>The \<^verbatim>\<open>catch\<close> block (lines 3928 to 3931) throws a new error whose message
  begins with \<^verbatim>\<open>Failed to import memories: \<close>. The engine is part of the result in
  either case.\<close>

definition import_failed :: "string \<Rightarrow> error" where
  "import_failed msg = Error (''Failed to import memories: '' @ msg)"

definition importMemories ::
  "('m \<Rightarrow> string + 'k) \<Rightarrow> ('k \<Rightarrow> 'k \<Rightarrow> bool) \<Rightarrow> 'm parsed \<Rightarrow> bool \<Rightarrow> 'm engine
     \<Rightarrow> (error + import_result) \<times> 'm engine" where
  "importMemories read_id same jsonData merge s =
     (case jsonData of
        SyntaxError msg \<Rightarrow> (Inl (import_failed msg), s)
      | NotArray \<Rightarrow>
          (Inl (import_failed ''Invalid import format: expected array of memories''), s)
      | Array importedMemories \<Rightarrow>
          if merge then
            (case read_ids read_id (memories s) of
               Inl msg \<Rightarrow> (Inl (import_failed msg), s)
             | Inr existingIds \<Rightarrow>
                 (case filter_new read_id same existingIds importedMemories of
                    Inl msg \<Rightarrow> (Inl (import_failed msg), s)
                  | Inr newMemories \<Rightarrow>
                      (let ms = newMemories @ memories s in
                       (Inr \<lparr> imported = length importedMemories, total = length ms \<rparr>,
                        s\<lparr> memories := ms, searchCache := Map.empty \<rparr>))))
          else
            (Inr \<lparr> imported = length importedMemories, total = length importedMemories \<rparr>,
             s\<lparr> memories := importedMemories, searchCache := Map.empty \<rparr>))"

text \<open>The two kinds of element. A record of the engine always has an \<^verbatim>\<open>id\<close>, a
  number.\<close>

definition memory_id :: "memory \<Rightarrow> string + real" where
  "memory_id m = Inr (id_m m)"

text \<open>A value that \<^verbatim>\<open>JSON.parse\<close> returns. Reading \<^verbatim>\<open>id\<close> of \<^verbatim>\<open>null\<close>
  throws a \<^verbatim>\<open>TypeError\<close>; an object gives its property or \<^verbatim>\<open>undefined\<close>
  (\<open>None\<close>), and so does every other value. Two values are the same for a
  \<^verbatim>\<open>Set\<close> when they are equal numbers, texts or truth values, both \<^verbatim>\<open>null\<close> or
  both \<^verbatim>\<open>undefined\<close>; two arrays or objects that the parser built are never the
  same.\<close>

datatype json =
  JNull | JBool bool | JNumber real | JString string | JArray "json list"
  | JObject "(string \<times> json) list"

fun json_id :: "json \<Rightarrow> string + json option" where
  "json_id JNull = Inl ''Cannot read properties of null (reading 'id')''"
| "json_id (JObject props) = Inr (map_of props ''id'')"
| "json_id v = Inr None"

fun is_reference :: "json \<Rightarrow> bool" where
  "is_reference (JArray xs) = True"
| "is_reference (JObject props) = True"
| "is_reference v = False"

definition same_value :: "json option \<Rightarrow> json option \<Rightarrow> bool" where
  "same_value a b =
     (case a of
        None \<Rightarrow> b = None
      | Some v \<Rightarrow> \<not> is_reference v \<and> b = Some v)"

subsection \<open>Example data\<close>

text \<open>A page and a clock for the examples, and a record as \<^verbatim>\<open>saveMemory\<close> builds it
  on that page at the time 1700000000000 without a backend.\<close>

definition example_env :: "int \<Rightarrow> env" where
  "example_env t =
     \<lparr> now = t, random = 1 / 2, hostname = ''chat.example.com'',
       href = ''https://chat.example.com/c/1'', backend = (\<lambda>text. None) \<rparr>"

definition example_memory :: "real \<Rightarrow> string \<Rightarrow> memory" where
  "example_memory i text =
     \<lparr> id_m = i, content = text, timestamp = 1700000000000, lastUpdated = None,
       source = ''chat.example.com'', url = ''https://chat.example.com/c/1'',
       conversationId = ''https://chat.example.com/c/1_944444'',
       category = categorizeContent text, summary = generateSummary text,
       tags = extractTags text, metadata = [] \<rparr>"

definition example_store :: "memory list \<Rightarrow> memory engine" where
  "example_store ms = new_engine \<lparr> memories := ms \<rparr>"

text \<open>Ten records, the most recent first.\<close>

definition ten_memories :: "memory list" where
  "ten_memories = map (\<lambda>k. example_memory (real k) ''note'') [10, 9, 8, 7, 6, 5, 4, 3, 2, 1 :: nat]"

text \<open>A record as \<^verbatim>\<open>JSON.parse\<close> returns it.\<close>

definition json_record :: "real \<Rightarrow> string \<Rightarrow> json" where
  "json_record i text =
     JObject [(''id'', JNumber i), (''content'', JString text),
              (''timestamp'', JNumber 1700000000000)]"

text \<open>Two records for the search examples.\<close>

definition constructor_note :: memory where
  "constructor_note =
     example_memory 1 ''The constructor runs once''"

definition python_note :: memory where
  "python_note = example_memory 2 ''python tips''"

text \<open>Two stored records, and the text of the first after the content
  \<^verbatim>\<open>python tips\<close> was appended once and twice.\<close>

definition hello_note :: memory where
  "hello_note = example_memory 1 ''hello world''"

definition words_note :: memory where
  "words_note = example_memory 2 ''other words here''"

definition appended_once :: string where
  "appended_once = ''hello world'' @ [CHR 0x0A, CHR 0x0A] @ ''python tips''"

definition appended_twice :: string where
  "appended_twice = appended_once @ [CHR 0x0A, CHR 0x0A] @ ''python tips''"

text \<open>The engine after a search for \<^verbatim>\<open>python\<close> over the two stored records, and
  after the content \<^verbatim>\<open>python tips\<close> was saved half a minute later.\<close>

definition searched_store :: "memory engine" where
  "searched_store =
     snd (getRelevantMemories (example_env 1700000030000) ''python'' 5 0
            (example_store [hello_note, words_note]))"

definition merged_store :: "memory engine" where
  "merged_store =
     snd (saveMemory (example_env 1700000060000) ''python tips'' [] searched_store)"

subsection \<open>Notions for the proofs\<close>

text \<open>The two lower-case words that name a member of \<^verbatim>\<open>Object.prototype\<close>.\<close>

definition inherited_key :: "string \<Rightarrow> bool" where
  "inherited_key key = (key = ''constructor'' \<or> key = ''__proto__'')"

text \<open>What the object of counts holds under the name \<^verbatim>\<open>constructor\<close>.\<close>

definition constructor_slot :: "(string \<rightharpoonup> propval) \<Rightarrow> bool" where
  "constructor_slot f = (f ''constructor'' = None \<or> (\<exists>t. t \<noteq> [] \<and> f ''constructor'' = Some (Text t)))"

text \<open>The record that \<^verbatim>\<open>saveMemory\<close> builds from its arguments, and the record
  that a merge makes of a stored one.\<close>

definition candidate :: "env \<Rightarrow> string \<Rightarrow> (string \<times> string) list \<Rightarrow> memory" where
  "candidate e text md =
     (let (cat, summ, tgs) =
            (case backend e text of
               Some a \<Rightarrow> a
             | None \<Rightarrow> (categorizeContent text, generateSummary text, extractTags text))
      in \<lparr> id_m = real_of_int (now e) + random e, content = trim text, timestamp = now e,
           lastUpdated = None, source = hostname e, url = href e,
           conversationId = getCurrentConversationId e, category = cat, summary = summ,
           tags = tgs, metadata = md \<rparr>)"

definition merge_into :: "env \<Rightarrow> memory \<Rightarrow> memory \<Rightarrow> memory" where
  "merge_into e existing new =
     (let appended = content existing @ [CHR 0x0A, CHR 0x0A] @ content new in
      existing \<lparr> content := appended, timestamp := now e, lastUpdated := Some (now e),
                 category := categorizeContent appended, summary := generateSummary appended,
                 tags := extractTags appended \<rparr>)"

section \<open>Properties\<close>

subsection \<open>Text helpers\<close>

lemma length_trim_le: "length (trim s) \<le> length s"
proof -
  have "length (trim s) \<le> length (dropWhile is_space s)"
    unfolding trim_def using length_dropWhile_le [of is_space "rev (dropWhile is_space s)"]
    by simp
  also have "\<dots> \<le> length s"
    by (rule length_dropWhile_le)
  finally show ?thesis .
qed

lemma findIndex_None: "findIndex p xs = None \<longleftrightarrow> (\<forall>x\<in>set xs. \<not> p x)"
  by (induction xs) (auto split: option.splits)

lemma findIndex_Some:
  "findIndex p xs = Some i \<Longrightarrow>
     i < length xs \<and> p (xs ! i) \<and> (\<forall>x\<in>set (take i xs). \<not> p x)"
proof (induction xs arbitrary: i)
  case Nil
  then show ?case by simp
next
  case (Cons x xs)
  show ?case
  proof (cases "p x")
    case True
    with Cons.prems show ?thesis by simp
  next
    case False
    with Cons.prems obtain j where j: "findIndex p xs = Some j" "i = Suc j"
      by (auto split: option.splits)
    from Cons.IH [OF j(1)] False j(2) show ?thesis by auto
  qed
qed

lemma split_on_not_Nil: "split_on sep s \<noteq> []"
  by (induction sep s rule: split_on.induct) (auto split: list.splits)

text \<open>The pieces of a split hold no separator, and together they are the text without
  its separators.\<close>

lemma split_on_pieces_clean:
  "s \<in> set (split_on sep txt) \<Longrightarrow> c \<in> set s \<Longrightarrow> \<not> sep c"
proof (induction sep "txt" arbitrary: s rule: split_on.induct)
  case (1 sep)
  then show ?case by simp
next
  case (2 sep a cs)
  show ?case
  proof (cases "sep a")
    case True
    with "2.prems" have "s = [] \<or> s \<in> set (split_on sep (dropWhile sep cs))"
      by simp
    with "2.prems"(2) "2.IH"(1) [OF True] show ?thesis by auto
  next
    case False
    obtain w ws where ws: "split_on sep cs = w # ws"
      using split_on_not_Nil [of sep cs] by (cases "split_on sep cs") auto
    with False "2.prems"(1) have "s = a # w \<or> s \<in> set ws"
      by simp
    then show ?thesis
    proof
      assume "s = a # w"
      with "2.prems"(2) have "c = a \<or> c \<in> set w" by simp
      with False "2.IH"(2) [OF False, of w] ws show ?thesis by auto
    next
      assume "s \<in> set ws"
      with "2.IH"(2) [OF False, of s] ws "2.prems"(2) show ?thesis by simp
    qed
  qed
qed

lemma filter_dropWhile_sep:
  "filter (\<lambda>c. \<not> sep c) (dropWhile sep cs) = filter (\<lambda>c. \<not> sep c) cs"
  by (induction cs) auto

lemma concat_split_on: "concat (split_on sep txt) = filter (\<lambda>c. \<not> sep c) txt"
proof (induction sep "txt" rule: split_on.induct)
  case (1 sep)
  then show ?case by simp
next
  case (2 sep a cs)
  show ?case
  proof (cases "sep a")
    case True
    with "2.IH"(1) [OF True] show ?thesis
      by (simp add: filter_dropWhile_sep)
  next
    case False
    obtain w ws where ws: "split_on sep cs = w # ws"
      using split_on_not_Nil [of sep cs] by (cases "split_on sep cs") auto
    with False "2.IH"(2) [OF False] show ?thesis by simp
  qed
qed

subsection \<open>The summary\<close>

text \<open>
  C4, as the code has it. The claim bounds the summary by 150 characters. The source cuts a
  long summary to 150 characters and then appends the ellipsis \<^verbatim>\<open>...\<close>, so a summary
  has up to 153 characters: a text of 151 letters \<^verbatim>\<open>a\<close> is one sentence, and its
  summary has 153 characters.
\<close>

theorem generateSummary_counterexample:
  "\<not> length (generateSummary (replicate 151 CHR ''a'')) \<le> 150"
  by code_simp

text \<open>
  C4, amended: for every content, the summary has at most 153 characters. The content is
  split at the runs of \<^verbatim>\<open>.\<close>, \<^verbatim>\<open>!\<close> and \<^verbatim>\<open>?\<close>: no piece holds one of them,
  and the pieces together are the content without them. A piece is kept when its trimmed
  length is greater than 10. With no piece kept the summary is the first 100 characters of
  the content. Otherwise the first three kept pieces are joined by \<^verbatim>\<open>". "\<close>; the
  summary is that text when it has at most 150 characters, and else its first 150
  characters followed by \<^verbatim>\<open>...\<close>, 153 characters in all.
\<close>

theorem generateSummary_spec:
  "length (generateSummary txt) \<le> 153
   \<and> (\<forall>s\<in>set (split_on is_sentence_end txt). \<forall>c\<in>set s. \<not> is_sentence_end c)
   \<and> concat (split_on is_sentence_end txt) = filter (\<lambda>c. \<not> is_sentence_end c) txt
   \<and> (filter (\<lambda>s. 10 < length (trim s)) (split_on is_sentence_end txt) = []
        \<longrightarrow> generateSummary txt = take 100 txt)
   \<and> (filter (\<lambda>s. 10 < length (trim s)) (split_on is_sentence_end txt) \<noteq> []
        \<and> length (join ''. '' (take 3
              (filter (\<lambda>s. 10 < length (trim s)) (split_on is_sentence_end txt)))) \<le> 150
        \<longrightarrow> generateSummary txt
              = join ''. '' (take 3
                  (filter (\<lambda>s. 10 < length (trim s)) (split_on is_sentence_end txt))))
   \<and> (filter (\<lambda>s. 10 < length (trim s)) (split_on is_sentence_end txt) \<noteq> []
        \<and> 150 < length (join ''. '' (take 3
              (filter (\<lambda>s. 10 < length (trim s)) (split_on is_sentence_end txt))))
        \<longrightarrow> generateSummary txt
              = take 150 (join ''. '' (take 3
                  (filter (\<lambda>s. 10 < length (trim s)) (split_on is_sentence_end txt))))
                @ ''...''
            \<and> length (generateSummary txt) = 153)"
proof -
  let ?kept = "filter (\<lambda>s. 10 < length (trim s)) (split_on is_sentence_end txt)"
  let ?joined = "join ''. '' (take 3 ?kept)"
  have k: "summary_sentences txt = ?kept"
    by (simp add: summary_sentences_def)
  have bound: "length (generateSummary txt) \<le> 153"
    by (auto simp: generateSummary_def Let_def)
  have clean: "\<forall>s\<in>set (split_on is_sentence_end txt). \<forall>c\<in>set s. \<not> is_sentence_end c"
    using split_on_pieces_clean by blast
  have whole: "concat (split_on is_sentence_end txt) = filter (\<lambda>c. \<not> is_sentence_end c) txt"
    by (rule concat_split_on)
  have none: "generateSummary txt = take 100 txt" if "?kept = []"
    using that by (simp add: generateSummary_def k)
  have short: "generateSummary txt = ?joined" if "?kept \<noteq> []" "length ?joined \<le> 150"
    using that by (simp add: generateSummary_def k Let_def)
  have long: "generateSummary txt = take 150 ?joined @ ''...'' \<and> length (generateSummary txt) = 153"
    if "?kept \<noteq> []" "150 < length ?joined"
    using that by (simp add: generateSummary_def k Let_def)
  from bound clean whole none short long show ?thesis by blast
qed


text \<open>The three cases at concrete contents: no piece is kept; a piece of exactly 10
  characters is dropped and the next one kept as it is, with its leading space; one piece
  of 151 characters is cut.\<close>

lemma summary_examples:
  "filter (\<lambda>s. 10 < length (trim s)) (split_on is_sentence_end ''ok. fine'') = []"
  "filter (\<lambda>s. 10 < length (trim s)) (split_on is_sentence_end ''1234567890. abcdefghijk'')
     = ['' abcdefghijk'']"
  "filter (\<lambda>s. 10 < length (trim s)) (split_on is_sentence_end (replicate 151 CHR ''a''))
     = [replicate 151 CHR ''a'']"
  by code_simp+

theorem generateSummary_spec_witness:
  "generateSummary ''ok. fine'' = ''ok. fine''
   \<and> generateSummary ''1234567890. abcdefghijk'' = '' abcdefghijk''
   \<and> generateSummary (replicate 151 CHR ''a'') = replicate 150 CHR ''a'' @ ''...''"
proof -
  note none = generateSummary_spec [of "''ok. fine''",
      THEN conjunct2, THEN conjunct2, THEN conjunct2, THEN conjunct1]
  from none [unfolded summary_examples] have a: "generateSummary ''ok. fine'' = ''ok. fine''"
    by simp
  note short = generateSummary_spec [of "''1234567890. abcdefghijk''",
      THEN conjunct2, THEN conjunct2, THEN conjunct2, THEN conjunct2, THEN conjunct1]
  from short [unfolded summary_examples]
  have b: "generateSummary ''1234567890. abcdefghijk'' = '' abcdefghijk''"
    by simp
  note long = generateSummary_spec [of "replicate 151 CHR ''a''",
      THEN conjunct2, THEN conjunct2, THEN conjunct2, THEN conjunct2, THEN conjunct2]
  have j: "join ''. '' (take 3 [replicate 151 CHR ''a'']) = replicate 151 CHR ''a''"
    by simp
  from long [unfolded summary_examples j]
  have c: "generateSummary (replicate 151 CHR ''a'') = replicate 150 CHR ''a'' @ ''...''"
    by (simp add: take_replicate)
  from a b c show ?thesis by blast
qed


subsection \<open>The category\<close>



subsection \<open>Deleting by id\<close>

text \<open>
  C10: \<^verbatim>\<open>deleteMemoryById\<close> returns true exactly when a record with the id is present.
  Then the collection loses the first record with that id and nothing else; otherwise the
  engine is unchanged.
\<close>

theorem deleteMemoryById_spec:
  "deleteMemoryById i s = (b, s') \<Longrightarrow>
     (b \<longleftrightarrow> (\<exists>m\<in>set (memories s). id_m m = i))
     \<and> (b \<longrightarrow> (\<exists>before m after.
             memories s = before @ m # after \<and> id_m m = i
             \<and> (\<forall>x\<in>set before. id_m x \<noteq> i)
             \<and> memories s' = before @ after))
     \<and> (\<not> b \<longrightarrow> s' = s)"
proof (cases "findIndex (\<lambda>m. id_m m = i) (memories s)")
  case None
  assume "deleteMemoryById i s = (b, s')"
  with None have "b = False" "s' = s"
    by (simp_all add: deleteMemoryById_def)
  moreover from None have "\<forall>x\<in>set (memories s). id_m x \<noteq> i"
    by (simp add: findIndex_None)
  ultimately show ?thesis by simp
next
  case (Some k)
  assume "deleteMemoryById i s = (b, s')"
  with Some have b: "b = True"
    and s': "memories s' = take k (memories s) @ drop (Suc k) (memories s)"
    by (auto simp: deleteMemoryById_def)
  from findIndex_Some [OF Some]
  have k: "k < length (memories s)" and hit: "id_m (memories s ! k) = i"
    and miss: "\<forall>x\<in>set (take k (memories s)). id_m x \<noteq> i"
    by auto
  from k have split:
    "memories s = take k (memories s) @ (memories s ! k) # drop (Suc k) (memories s)"
    by (simp add: id_take_nth_drop)
  from k hit have ex: "\<exists>m\<in>set (memories s). id_m m = i"
    using nth_mem by blast
  from split hit miss s' have "\<exists>before m after.
             memories s = before @ m # after \<and> id_m m = i
             \<and> (\<forall>x\<in>set before. id_m x \<noteq> i)
             \<and> memories s' = before @ after"
    by blast
  with b ex show ?thesis by simp
qed

theorem deleteMemoryById_witness:
  "deleteMemoryById 2
     (example_store [example_memory 1 ''one'', example_memory 2 ''two'',
                     example_memory 3 ''three'', example_memory 2 ''two again''])
   = (True, (example_store [example_memory 1 ''one'', example_memory 3 ''three'',
                            example_memory 2 ''two again'']) \<lparr> searchCache := Map.empty \<rparr>)
   \<and> (\<exists>m\<in>set [example_memory 1 ''one'', example_memory 2 ''two'',
                example_memory 3 ''three'', example_memory 2 ''two again'']. id_m m = 2)
   \<and> deleteMemoryById 7 (example_store [example_memory 1 ''one'']) 
       = (False, example_store [example_memory 1 ''one''])"
proof -
  let ?s = "example_store [example_memory 1 ''one'', example_memory 2 ''two'',
                     example_memory 3 ''three'', example_memory 2 ''two again'']"
  let ?s' = "(example_store [example_memory 1 ''one'', example_memory 3 ''three'',
                            example_memory 2 ''two again'']) \<lparr> searchCache := Map.empty \<rparr>"
  have h: "deleteMemoryById 2 ?s = (True, ?s')"
    by (simp add: deleteMemoryById_def example_store_def example_memory_def)
  have h2: "deleteMemoryById 7 (example_store [example_memory 1 ''one'']) 
       = (False, example_store [example_memory 1 ''one''])"
    by (simp add: deleteMemoryById_def example_store_def example_memory_def)
  from deleteMemoryById_spec [OF h] deleteMemoryById_spec [OF h2] h h2 show ?thesis
    by (simp add: example_store_def)
qed

subsection \<open>Browsing without a query\<close>

text \<open>For a query of fewer than three characters the source returns a slice of the
  collection and leaves the engine as it is; the slice begins at \<open>page * pageSize\<close>.\<close>

lemma getRelevantMemories_short_query:
  "query = [] \<or> length (trim query) < 3 \<Longrightarrow>
     getRelevantMemories e query limit page s
       = (Recent (take limit (drop (page * pageSize s) (memories s))), s)"
  by (auto simp: getRelevantMemories_def Let_def)

text \<open>
  C6, at a concrete input: ten records, the empty query, limit 5. Page 0 is the five most
  recent records. Page 1 is empty: the slice begins at position 50 (one page size), though
  the records at the positions 5 to 9 exist.
\<close>

theorem getRelevantMemories_second_page_empty:
  "fst (getRelevantMemories (example_env 1700000000000) '''' 5 0 (example_store ten_memories))
     = Recent (take 5 ten_memories)
   \<and> fst (getRelevantMemories (example_env 1700000000000) '''' 5 1 (example_store ten_memories))
     = Recent []
   \<and> length (take 5 (drop (1 * 5) ten_memories)) = 5"
  by (simp add: getRelevantMemories_def example_store_def new_engine_def ten_memories_def)

subsection \<open>The Jaccard similarity\<close>

lemma set_uniq: "set (uniq xs) = set xs"
  by (simp add: uniq_def)

lemma length_uniq: "length (uniq xs) = card (set xs)"
  using length_remdups_card_conv [of "rev xs"] by (simp add: uniq_def)

lemma toLower_char_not_upper: "\<not> is_upper c \<Longrightarrow> toLower_char c = c"
  by (cases c) simp

lemma is_space_not_upper: "is_space c \<Longrightarrow> \<not> is_upper c"
  by (auto simp: is_space_def is_upper_def Let_def)

lemma toLowerCase_blank: "\<forall>c\<in>set t. is_space c \<Longrightarrow> toLowerCase t = t"
  by (simp add: toLowerCase_def map_idI toLower_char_not_upper is_space_not_upper)

lemma split_on_blank: "\<forall>c\<in>set t. sep c \<Longrightarrow> set (split_on sep t) = {[]}"
proof (cases t)
  case Nil
  then show ?thesis by simp
next
  case (Cons c cs)
  assume a: "\<forall>c\<in>set t. sep c"
  with Cons have dw: "dropWhile sep cs = []" and c: "sep c"
    by simp_all
  have "split_on sep (c # cs) = [ [], [] ]"
    by (simp add: dw c)
  with Cons show ?thesis by simp
qed

lemma word_list_blank: "\<forall>c\<in>set t. is_space c \<Longrightarrow> set (word_list t) = {[]}"
  by (simp add: word_list_def set_uniq toLowerCase_blank split_on_blank)

lemma calculateSimilarity_sets:
  "calculateSimilarity t1 t2
     = div_counts (card (set (word_list t1) \<inter> set (word_list t2)))
                  (card (set (word_list t1) \<union> set (word_list t2)))"
proof -
  have "set (filter (\<lambda>x. x \<in> set (word_list t2)) (word_list t1))
          = set (word_list t1) \<inter> set (word_list t2)"
    by auto
  then show ?thesis
    by (simp add: calculateSimilarity_def Let_def length_uniq)
qed

text \<open>
  C3, amended: the similarity is the size of the intersection over the size of the union
  of the two sets of lower-case pieces that the split at whitespace gives. A split always
  gives at least one piece, so the union is never empty and the division is never by zero.
  A text without any word gives the set that holds the empty piece: two such texts have
  similarity 1, and a candidate without words is a duplicate of a stored record without
  words.
\<close>

theorem calculateSimilarity_jaccard:
  "calculateSimilarity t1 t2
     = Fin (real (card (set (split_on is_space (toLowerCase t1))
                        \<inter> set (split_on is_space (toLowerCase t2))))
            / real (card (set (split_on is_space (toLowerCase t1))
                          \<union> set (split_on is_space (toLowerCase t2)))))
   \<and> 0 < card (set (split_on is_space (toLowerCase t1))
               \<union> set (split_on is_space (toLowerCase t2)))
   \<and> ((\<forall>c\<in>set t1. is_space c) \<and> (\<forall>c\<in>set t2. is_space c)
        \<longrightarrow> calculateSimilarity t1 t2 = Fin 1)
   \<and> ((\<forall>c\<in>set (content m). is_space c) \<and> (\<forall>c\<in>set (content newMemory). is_space c)
        \<and> m \<in> set (memories s) \<longrightarrow> isDuplicate s newMemory)"
proof -
  let ?W1 = "set (split_on is_space (toLowerCase t1))"
  let ?W2 = "set (split_on is_space (toLowerCase t2))"
  have W: "set (word_list t1) = ?W1" "set (word_list t2) = ?W2"
    by (simp_all add: word_list_def set_uniq)
  have "?W1 \<noteq> {}"
    using split_on_not_Nil [of is_space "toLowerCase t1"] by simp
  then have pos: "0 < card (?W1 \<union> ?W2)"
    by (simp add: card_gt_0_iff)
  then have "card (?W1 \<union> ?W2) \<noteq> 0"
    by linarith
  then have formula: "calculateSimilarity t1 t2
      = Fin (real (card (?W1 \<inter> ?W2)) / real (card (?W1 \<union> ?W2)))"
    unfolding calculateSimilarity_sets W div_counts_def by simp
  have blank: "calculateSimilarity a b = Fin 1"
    if "\<forall>c\<in>set a. is_space c" "\<forall>c\<in>set b. is_space c" for a b
    using that by (simp add: calculateSimilarity_sets word_list_blank div_counts_def)
  have dup: "isDuplicate s newMemory"
    if "\<forall>c\<in>set (content m). is_space c" "\<forall>c\<in>set (content newMemory). is_space c"
       "m \<in> set (memories s)"
  proof -
    from that(1,2) have "num_gt (calculateSimilarity (content m) (content newMemory)) 0.85"
      by (simp add: blank)
    with that(3) show ?thesis
      by (auto simp: isDuplicate_def list_ex_iff)
  qed
  from pos formula blank dup show ?thesis by blast
qed

text \<open>
  C3, as the code has it. The claim treats a candidate as no duplicate when both word sets
  are empty. For the empty text and a text of two spaces the source computes the
  similarity 1, above the threshold 0.85, and the candidate is a duplicate.
\<close>

theorem calculateSimilarity_blank_counterexample:
  "calculateSimilarity '''' ''  '' = Fin 1
   \<and> isDuplicate (example_store [example_memory 1 ''  '']) (example_memory 2 '''')"
  by (simp add: calculateSimilarity_def word_list_def uniq_def toLowerCase_def is_space_def
        div_counts_def isDuplicate_def example_store_def example_memory_def)

theorem calculateSimilarity_jaccard_witness:
  "calculateSimilarity '''' ''  '' = Fin 1
   \<and> isDuplicate (example_store [example_memory 1 ''  '']) (example_memory 2 '''')
   \<and> calculateSimilarity ''Alpha beta'' ''beta  GAMMA'' = Fin (1 / 3)"
proof -
  have b1: "\<forall>c\<in>set ''''. is_space c" and b2: "\<forall>c\<in>set ''  ''. is_space c"
    by (simp_all add: is_space_def)
  have c1: "\<forall>c\<in>set (content (example_memory 1 ''  '')). is_space c"
    and c2: "\<forall>c\<in>set (content (example_memory 2 '''')). is_space c"
    by (simp_all add: is_space_def example_memory_def)
  have mem: "example_memory 1 ''  '' \<in> set (memories (example_store [example_memory 1 ''  '']))"
    by (simp add: example_store_def)
  have W: "set (split_on is_space (toLowerCase ''Alpha beta'')) = {''alpha'', ''beta''}"
    "set (split_on is_space (toLowerCase ''beta  GAMMA'')) = {''beta'', ''gamma''}"
    by (auto simp: toLowerCase_def is_space_def is_upper_def)
  have I: "card ({''alpha'', ''beta''} \<inter> {''beta'', ''gamma''}) = 1"
    by simp
  have U: "card ({''alpha'', ''beta''} \<union> {''beta'', ''gamma''}) = 3"
    by (simp add: card_insert_if)
  from calculateSimilarity_jaccard [of "''''" "''  ''" "example_memory 1 ''  ''"
        "example_memory 2 ''''" "example_store [example_memory 1 ''  '']"] b1 b2 c1 c2 mem
  have "calculateSimilarity '''' ''  '' = Fin 1"
    and "isDuplicate (example_store [example_memory 1 ''  '']) (example_memory 2 '''')"
    by blast+
  moreover from calculateSimilarity_jaccard [of "''Alpha beta''" "''beta  GAMMA''"]
  have "calculateSimilarity ''Alpha beta'' ''beta  GAMMA'' = Fin (1 / 3)"
    unfolding W I U by simp
  ultimately show ?thesis by blast
qed

subsection \<open>Importing\<close>

lemma read_ids_Inl:
  "(\<exists>msg. read_ids read_id ms = Inl msg) \<longleftrightarrow> (\<exists>m\<in>set ms. \<exists>msg. read_id m = Inl msg)"
  by (induction ms) (auto split: sum.splits)

lemma filter_new_Inl:
  "(\<exists>msg. filter_new read_id same ks ms = Inl msg)
     \<longleftrightarrow> (\<exists>m\<in>set ms. \<exists>msg. read_id m = Inl msg)"
  by (induction ms) (auto split: sum.splits)

lemma import_failed_message: "\<exists>m. import_failed msg = Error (''Failed to import memories: '' @ m)"
  by (simp add: import_failed_def)

lemma importMemories_SyntaxError:
  "importMemories read_id same (SyntaxError msg) merge s = (Inl (import_failed msg), s)"
  by (simp add: importMemories_def)

lemma importMemories_NotArray:
  "importMemories read_id same NotArray merge s
     = (Inl (import_failed ''Invalid import format: expected array of memories''), s)"
  by (simp add: importMemories_def)

lemma importMemories_replace:
  "importMemories read_id same (Array ms) False s
     = (Inr \<lparr> imported = length ms, total = length ms \<rparr>,
        s\<lparr> memories := ms, searchCache := Map.empty \<rparr>)"
  by (simp add: importMemories_def)

lemma importMemories_merge_cases:
  "importMemories read_id same (Array ms) True s = (r, s') \<Longrightarrow>
     ((\<exists>m\<in>set (memories s) \<union> set ms. \<exists>msg. read_id m = Inl msg)
        \<and> (\<exists>msg. r = Inl (import_failed msg)) \<and> s' = s)
     \<or> ((\<forall>m\<in>set (memories s) \<union> set ms. \<forall>msg. read_id m \<noteq> Inl msg)
        \<and> (\<exists>res. r = Inr res))"
proof (cases "read_ids read_id (memories s)")
  case (Inl msg)
  assume "importMemories read_id same (Array ms) True s = (r, s')"
  with Inl have "r = Inl (import_failed msg)" "s' = s"
    by (simp_all add: importMemories_def)
  moreover from Inl read_ids_Inl [of read_id "memories s"]
  have "\<exists>m\<in>set (memories s). \<exists>msg. read_id m = Inl msg" by blast
  ultimately show ?thesis by blast
next
  case (Inr ks)
  assume imp: "importMemories read_id same (Array ms) True s = (r, s')"
  from Inr read_ids_Inl [of read_id "memories s"]
  have old: "\<forall>m\<in>set (memories s). \<forall>msg. read_id m \<noteq> Inl msg" by auto
  show ?thesis
  proof (cases "filter_new read_id same ks ms")
    case (Inl msg)
    with Inr imp have "r = Inl (import_failed msg)" "s' = s"
      by (simp_all add: importMemories_def)
    moreover from Inl filter_new_Inl [of read_id same ks ms]
    have "\<exists>m\<in>set ms. \<exists>msg. read_id m = Inl msg" by blast
    ultimately show ?thesis by blast
  next
    case (Inr new)
    with \<open>read_ids read_id (memories s) = Inr ks\<close> imp have "\<exists>res. r = Inr res"
      by (auto simp: importMemories_def Let_def)
    moreover from Inr filter_new_Inl [of read_id same ks ms]
    have "\<forall>m\<in>set ms. \<forall>msg. read_id m \<noteq> Inl msg" by auto
    ultimately show ?thesis using old by blast
  qed
qed

text \<open>
  C7, amended: \<^verbatim>\<open>importMemories\<close> throws exactly when the text is not JSON, when
  the value is not an array, or when in merge mode reading the \<^verbatim>\<open>id\<close> of a stored or
  imported element throws (the element is \<^verbatim>\<open>null\<close>). The error's message begins
  with \<^verbatim>\<open>Failed to import memories: \<close>, and the engine is then what it was before
  the call. The shape of the elements is not checked: in replace mode every array becomes
  the collection as it is.
\<close>

theorem importMemories_all_or_nothing:
  "importMemories read_id same jsonData merge s = (r, s') \<Longrightarrow>
     ((\<exists>e. r = Inl e) \<longleftrightarrow>
        ((\<exists>msg. jsonData = SyntaxError msg) \<or> jsonData = NotArray
         \<or> (merge \<and> (\<exists>ms. jsonData = Array ms
                \<and> (\<exists>m\<in>set (memories s) \<union> set ms. \<exists>msg. read_id m = Inl msg)))))
     \<and> (\<forall>e. r = Inl e \<longrightarrow>
           s' = s \<and> (\<exists>msg. e = Error (''Failed to import memories: '' @ msg)))
     \<and> (\<forall>ms. jsonData = Array ms \<and> \<not> merge \<longrightarrow>
           r = Inr \<lparr> imported = length ms, total = length ms \<rparr> \<and> memories s' = ms)"
proof (cases jsonData)
  case (SyntaxError msg)
  assume "importMemories read_id same jsonData merge s = (r, s')"
  with SyntaxError have "r = Inl (import_failed msg)" "s' = s"
    by (simp_all add: importMemories_SyntaxError)
  with SyntaxError show ?thesis by (auto simp: import_failed_def)
next
  case NotArray
  assume "importMemories read_id same jsonData merge s = (r, s')"
  with NotArray
  have "r = Inl (import_failed ''Invalid import format: expected array of memories'')" "s' = s"
    by (simp_all add: importMemories_NotArray)
  with NotArray show ?thesis by (auto simp: import_failed_def)
next
  case (Array ms)
  assume imp: "importMemories read_id same jsonData merge s = (r, s')"
  show ?thesis
  proof (cases merge)
    case False
    with Array imp have "r = Inr \<lparr> imported = length ms, total = length ms \<rparr>" "memories s' = ms"
      by (auto simp: importMemories_replace)
    with Array False show ?thesis by auto
  next
    case True
    from importMemories_merge_cases [of read_id same ms s r s'] imp Array True
    show ?thesis using Array True by (auto simp: import_failed_def)
  qed
qed

text \<open>
  C7, as the code has it. The claim has an error raised whenever an element lacks the shape
  of a record. The array \<^verbatim>\<open>[1, {}]\<close> holds a number and an object without any field;
  the source imports it in replace mode and in merge mode, and both elements are then in
  the collection.
\<close>

theorem importMemories_unchecked_elements:
  "importMemories json_id same_value (Array [JNumber 1, JObject []]) False
       (new_engine \<lparr> memories := [json_record 1 ''note''] \<rparr>)
     = (Inr \<lparr> imported = 2, total = 2 \<rparr>,
        new_engine \<lparr> memories := [JNumber 1, JObject []] \<rparr>)
   \<and> importMemories json_id same_value (Array [JNumber 1, JObject []]) True
       (new_engine \<lparr> memories := [json_record 1 ''note''] \<rparr>)
     = (Inr \<lparr> imported = 2, total = 3 \<rparr>,
        new_engine \<lparr> memories := [JNumber 1, JObject [], json_record 1 ''note''] \<rparr>)"
  by (simp add: importMemories_def new_engine_def json_record_def same_value_def)

theorem importMemories_all_or_nothing_witness:
  "importMemories json_id same_value NotArray True (new_engine \<lparr> memories := [json_record 1 ''note''] \<rparr>)
     = (Inl (Error ''Failed to import memories: Invalid import format: expected array of memories''),
        new_engine \<lparr> memories := [json_record 1 ''note''] \<rparr>)
   \<and> importMemories json_id same_value (Array [json_record 2 ''new'', JNull]) True
        (new_engine \<lparr> memories := [json_record 1 ''note''] \<rparr>)
     = (Inl (Error ''Failed to import memories: Cannot read properties of null (reading 'id')''),
        new_engine \<lparr> memories := [json_record 1 ''note''] \<rparr>)
   \<and> importMemories json_id same_value (Array [json_record 2 ''new'', json_record 1 ''copy'']) True
        (new_engine \<lparr> memories := [json_record 1 ''note''] \<rparr>)
     = (Inr \<lparr> imported = 2, total = 2 \<rparr>,
        new_engine \<lparr> memories := [json_record 2 ''new'', json_record 1 ''note''] \<rparr>)"
proof -
  let ?s = "new_engine \<lparr> memories := [json_record 1 ''note''] \<rparr> :: json engine"
  have a: "importMemories json_id same_value NotArray True ?s
     = (Inl (Error ''Failed to import memories: Invalid import format: expected array of memories''), ?s)"
    by (simp add: importMemories_def import_failed_def)
  have b: "importMemories json_id same_value (Array [json_record 2 ''new'', JNull]) True ?s
     = (Inl (Error ''Failed to import memories: Cannot read properties of null (reading 'id')''), ?s)"
    by (simp add: importMemories_def import_failed_def json_record_def same_value_def new_engine_def)
  have c: "importMemories json_id same_value (Array [json_record 2 ''new'', json_record 1 ''copy'']) True ?s
     = (Inr \<lparr> imported = 2, total = 2 \<rparr>,
        new_engine \<lparr> memories := [json_record 2 ''new'', json_record 1 ''note''] \<rparr>)"
    by (simp add: importMemories_def json_record_def same_value_def new_engine_def)
  from importMemories_all_or_nothing [OF a] importMemories_all_or_nothing [OF b]
       importMemories_all_or_nothing [OF c] a b c
  show ?thesis by simp
qed

subsection \<open>The size of the collection\<close>

text \<open>On records of the engine, the merge mode keeps the imported records whose id no
  stored record has, in front of the stored ones.\<close>

lemma read_ids_memory_id: "read_ids memory_id ms = Inr (map id_m ms)"
  by (induction ms) (simp_all add: memory_id_def)

lemma filter_new_memory_id:
  "filter_new memory_id (=) ks ms = Inr (filter (\<lambda>m. id_m m \<notin> set ks) ms)"
  by (induction ms) (auto simp: memory_id_def list_ex_iff)

lemma importMemories_memory_merge:
  "importMemories memory_id (=) (Array ms) True s
     = (let new = filter (\<lambda>m. id_m m \<notin> id_m ` set (memories s)) ms in
        (Inr \<lparr> imported = length ms, total = length new + length (memories s) \<rparr>,
         s\<lparr> memories := new @ memories s, searchCache := Map.empty \<rparr>))"
  by (simp add: importMemories_def read_ids_memory_id filter_new_memory_id Let_def)

text \<open>
  C2, at a concrete input: an engine as the constructor makes it, with
  \<^verbatim>\<open>maxMemories = 1000\<close>, and an import of an array of 1001 records. In replace mode
  and in merge mode the collection has 1001 records afterwards: \<^verbatim>\<open>importMemories\<close>
  does not cut the collection to \<^verbatim>\<open>maxMemories\<close> as \<^verbatim>\<open>saveMemory\<close> does.
\<close>

theorem importMemories_exceeds_cap:
  "length (memories (snd (importMemories memory_id (=)
       (Array (replicate 1001 (example_memory 1 ''note''))) False new_engine))) = 1001
   \<and> length (memories (snd (importMemories memory_id (=)
       (Array (replicate 1001 (example_memory 1 ''note''))) True new_engine))) = 1001
   \<and> maxMemories (snd (importMemories memory_id (=)
       (Array (replicate 1001 (example_memory 1 ''note''))) False new_engine)) = 1000
   \<and> maxMemories (snd (importMemories memory_id (=)
       (Array (replicate 1001 (example_memory 1 ''note''))) True new_engine)) = 1000"
  by (simp add: importMemories_replace importMemories_memory_merge new_engine_def)

subsection \<open>The scores\<close>

lemma num_add_NaN_right: "num_add x NaN = NaN"
  by (cases x) (simp_all add: num_add_def)

lemma num_add_NaN_left: "num_add NaN y = NaN"
  by (simp add: num_add_def)

lemma num_mul_NaN_left: "num_mul NaN y = NaN"
  by (simp add: num_mul_def)

lemma count_step_constructor_slot:
  "constructor_slot f \<Longrightarrow>
     constructor_slot (set_prop f term (plus_one (or_zero (get_prop f term))))"
  by (auto simp: constructor_slot_def set_prop_def get_prop_def)

lemma fold_constructor_slot:
  "constructor_slot f \<Longrightarrow>
     constructor_slot (fold (\<lambda>term frequencies.
        set_prop frequencies term (plus_one (or_zero (get_prop frequencies term)))) ts f)"
  by (induction ts arbitrary: f) (simp_all add: count_step_constructor_slot)

lemma inherited_key_not_a_number:
  assumes "inherited_key key"
  shows "to_number (or_zero (get_prop (getTermFrequencies ts) key)) = NaN"
proof -
  have "constructor_slot (getTermFrequencies ts)"
    unfolding getTermFrequencies_def
    by (rule fold_constructor_slot) (simp add: constructor_slot_def)
  with assms show ?thesis
    by (auto simp: inherited_key_def constructor_slot_def get_prop_def)
qed

lemma fold_from_NaN:
  "fold (\<lambda>q acc. num_add acc (g q)) qs NaN = NaN"
  by (induction qs) (simp_all add: num_add_NaN_left)

lemma fold_reaches_NaN:
  "q \<in> set qs \<Longrightarrow> g q = NaN \<Longrightarrow> fold (\<lambda>q acc. num_add acc (g q)) qs acc = NaN"
proof (induction qs arbitrary: acc)
  case Nil
  then show ?case by simp
next
  case (Cons a qs)
  show ?case
  proof (cases "a = q")
    case True
    with Cons.prems show ?thesis
      by (simp add: num_add_NaN_right fold_from_NaN)
  next
    case False
    with Cons show ?thesis by simp
  qed
qed

lemma calculateDocumentScore_inherited_key:
  assumes "q \<in> set queryTerms" "inherited_key q"
  shows "calculateDocumentScore queryTerms docTerms allDocuments = NaN"
proof -
  let ?g = "\<lambda>queryTerm. num_mul
      (num_div_count (to_number (or_zero (get_prop (getTermFrequencies docTerms) queryTerm)))
                     (max (length docTerms) 1))
      (calculateIDF queryTerm allDocuments)"
  from assms(2) have "?g q = NaN"
    by (simp add: inherited_key_not_a_number num_mul_NaN_left)
  with assms(1) have "fold (\<lambda>q acc. num_add acc (?g q)) queryTerms (Fin 0) = NaN"
    by (rule fold_reaches_NaN)
  then show ?thesis
    by (simp add: calculateDocumentScore_def Let_def)
qed

text \<open>The terms of the examples.\<close>

lemma constructor_query_terms: "preprocessText ''constructor'' = [''constructor'']"
  by code_simp

lemma constructor_note_terms:
  "preprocessText (document_text constructor_note)
     = [''constructor'', ''runs'', ''constructor'', ''runs'']"
  by code_simp

lemma python_note_terms:
  "preprocessText (document_text python_note) = [''python'', ''tips'', ''python'', ''tips'', ''python'']"
  by code_simp

text \<open>
  C9, at a concrete input: the query \<^verbatim>\<open>constructor\<close> against two records, one of
  which holds the word. \<^verbatim>\<open>docTermCounts["constructor"]\<close> is not a count: it is the
  function \<^verbatim>\<open>Object\<close> that every object literal inherits, or the text that
  \<^verbatim>\<open>getTermFrequencies\<close> made of it. The term frequency is \<^verbatim>\<open>NaN\<close>, and so is
  the score of every record; \<^verbatim>\<open>NaN > 0.05\<close> is false, and the search returns nothing.
\<close>

theorem constructor_query_scores_NaN:
  "map score (calculateTFIDFScores ''constructor'' [constructor_note, python_note]) = [NaN, NaN]
   \<and> fst (getRelevantMemories (example_env 1700000000000) ''constructor'' 5 0
            (example_store [constructor_note, python_note])) = Ranked []"
proof -
  have k: "inherited_key ''constructor''"
    by (simp add: inherited_key_def)
  have nan: "calculateDocumentScore [''constructor''] ts ds = NaN" for ts and ds :: "memory document list"
    by (rule calculateDocumentScore_inherited_key [of "''constructor''"]) (simp_all add: k)
  have scores: "map score (calculateTFIDFScores ''constructor'' [constructor_note, python_note]) = [NaN, NaN]"
    by (simp add: calculateTFIDFScores_def constructor_query_terms nan Let_def)
  have "filter (\<lambda>m. num_gt (score m) 0.05)
          (calculateTFIDFScores ''constructor'' [constructor_note, python_note]) = []"
    by (simp add: calculateTFIDFScores_def constructor_query_terms nan Let_def)
  then have "fst (getRelevantMemories (example_env 1700000000000) ''constructor'' 5 0
            (example_store [constructor_note, python_note])) = Ranked []"
    by (simp add: getRelevantMemories_def example_store_def new_engine_def trim_def is_space_def
          sort_by_score_def Let_def)
  with scores show ?thesis by simp
qed


text \<open>For every other query term the object of counts holds the number of occurrences,
  the inverse document frequency is a logarithm of a ratio of at least 1, and the score is
  a finite number that is not negative.\<close>

lemma count_step_other_key:
  assumes "\<not> inherited_key key" "or_zero (get_prop f key) = Count n"
  shows "or_zero (get_prop (set_prop f term (plus_one (or_zero (get_prop f term)))) key)
           = Count (if term = key then n + 1 else n)"
  using assms by (auto simp: inherited_key_def get_prop_def set_prop_def split: option.splits)

lemma fold_counts:
  assumes "\<not> inherited_key key" "or_zero (get_prop f key) = Count n"
  shows "or_zero (get_prop (fold (\<lambda>term frequencies.
            set_prop frequencies term (plus_one (or_zero (get_prop frequencies term)))) ts f) key)
           = Count (n + count_list ts key)"
  using assms
proof (induction ts arbitrary: f n)
  case Nil
  then show ?case by simp
next
  case (Cons t ts)
  from count_step_other_key [OF Cons.prems]
  have "or_zero (get_prop (set_prop f t (plus_one (or_zero (get_prop f t)))) key)
           = Count (if t = key then n + 1 else n)" .
  from Cons.IH [OF Cons.prems(1) this] show ?case by auto
qed

lemma getTermFrequencies_count:
  "\<not> inherited_key key \<Longrightarrow>
     or_zero (get_prop (getTermFrequencies ts) key) = Count (count_list ts key)"
  using fold_counts [of key Map.empty 0 ts]
  by (simp add: getTermFrequencies_def get_prop_def inherited_key_def)

lemma calculateIDF_nonneg: "\<exists>r. calculateIDF term documents = Fin r \<and> 0 \<le> r"
proof (cases "length (filter (\<lambda>d. term \<in> set (terms d)) documents) = 0")
  case True
  then show ?thesis by (simp add: calculateIDF_def)
next
  case False
  let ?n = "length (filter (\<lambda>d. term \<in> set (terms d)) documents)"
  from False have "0 < ?n" by simp
  moreover have "?n \<le> length documents" by (rule length_filter_le)
  ultimately have "1 \<le> real (length documents) / real ?n"
    by (simp add: le_divide_eq)
  then have "0 \<le> ln (real (length documents) / real ?n)"
    by (rule ln_ge_zero)
  with False show ?thesis by (simp add: calculateIDF_def Let_def)
qed

lemma fold_scores_nonneg:
  assumes "\<forall>q\<in>set qs. \<exists>r. g q = Fin r \<and> 0 \<le> r" "0 \<le> a"
  shows "\<exists>x. fold (\<lambda>q acc. num_add acc (g q)) qs (Fin a) = Fin x \<and> 0 \<le> x"
  using assms
proof (induction qs arbitrary: a)
  case Nil
  then show ?case by simp
next
  case (Cons q qs)
  from Cons.prems(1) obtain r where r: "g q = Fin r" "0 \<le> r" by auto
  with Cons.prems(2) have "num_add (Fin a) (g q) = Fin (a + r)" "0 \<le> a + r"
    by (simp_all add: num_add_def)
  with Cons.IH [of "a + r"] Cons.prems(1) show ?case by simp
qed

lemma calculateDocumentScore_nonneg:
  assumes "\<forall>q\<in>set queryTerms. \<not> inherited_key q"
  shows "\<exists>x. calculateDocumentScore queryTerms docTerms allDocuments = Fin x \<and> 0 \<le> x"
proof -
  let ?g = "\<lambda>queryTerm. num_mul
      (num_div_count (to_number (or_zero (get_prop (getTermFrequencies docTerms) queryTerm)))
                     (max (length docTerms) 1))
      (calculateIDF queryTerm allDocuments)"
  have "\<exists>r. ?g q = Fin r \<and> 0 \<le> r" if "q \<in> set queryTerms" for q
  proof -
    from that assms have "\<not> inherited_key q" by simp
    then have tf: "num_div_count (to_number (or_zero (get_prop (getTermFrequencies docTerms) q)))
                     (max (length docTerms) 1)
          = Fin (real (count_list docTerms q) / real (max (length docTerms) 1))"
      by (simp add: getTermFrequencies_count)
    obtain r where r: "calculateIDF q allDocuments = Fin r" "0 \<le> r"
      using calculateIDF_nonneg by blast
    have "0 \<le> real (count_list docTerms q) / real (max (length docTerms) 1) * r"
      using r(2) by simp
    with tf r(1) show ?thesis by (simp add: num_mul_def)
  qed
  then obtain x where x: "fold (\<lambda>q acc. num_add acc (?g q)) queryTerms (Fin 0) = Fin x" "0 \<le> x"
    using fold_scores_nonneg [of queryTerms ?g 0] by auto
  then have "calculateDocumentScore queryTerms docTerms allDocuments
               = Fin (x / real (max (length queryTerms) 1))"
    by (simp add: calculateDocumentScore_def Let_def)
  moreover from x(2) have "0 \<le> x / real (max (length queryTerms) 1)" by simp
  ultimately show ?thesis by blast
qed

subsection \<open>Saving\<close>

lemma isDuplicate_content:
  "content a = content b \<Longrightarrow> isDuplicate s a = isDuplicate s b"
  by (simp add: isDuplicate_def)

lemma find_None_iff_not_ex: "find p xs = None \<longleftrightarrow> (\<forall>x\<in>set xs. \<not> p x)"
  by (induction xs) auto

lemma length_replace_first: "length (replace_first p y xs) = length xs"
  by (induction xs) auto

text \<open>\<^verbatim>\<open>saveMemory\<close> by its three outcomes: the candidate is a duplicate, it is
  appended to the active conversation, or it becomes a new record at the front.\<close>

lemma candidate_fields:
  "content (candidate e text md) = trim text"
  "conversationId (candidate e text md) = getCurrentConversationId e"
  "lastUpdated (candidate e text md) = None"
  by (simp_all add: candidate_def Let_def split: prod.splits)

lemma saveMemory_cases:
  "saveMemory e text md s =
     (if isDuplicate s (candidate e text md) then (None, s)
      else case findActiveConversation s e (candidate e text md) of
             Some existing \<Rightarrow>
               (Some (merge_into e existing (candidate e text md)),
                s\<lparr> memories := replace_first (is_active e (candidate e text md))
                                 (merge_into e existing (candidate e text md)) (memories s) \<rparr>)
           | None \<Rightarrow>
               (Some (candidate e text md),
                s\<lparr> memories :=
                     (if length (candidate e text md # memories s) > maxMemories s
                      then take (maxMemories s) (candidate e text md # memories s)
                      else candidate e text md # memories s),
                   searchCache := Map.empty \<rparr>))"
  by (simp add: saveMemory_def candidate_def merge_into_def Let_def split: prod.splits option.splits)

lemma saveMemory_duplicate:
  "isDuplicate s (candidate e text md) \<Longrightarrow> saveMemory e text md s = (None, s)"
  by (simp add: saveMemory_cases)

text \<open>Saving, deleting and cleaning up keep a collection within \<^verbatim>\<open>maxMemories\<close>,
  and a new record pushes the last record out of a full collection.\<close>

lemma saveMemory_keeps_cap:
  assumes "length (memories s) \<le> maxMemories s"
  shows "length (memories (snd (saveMemory e text md s))) \<le> maxMemories s
         \<and> maxMemories (snd (saveMemory e text md s)) = maxMemories s"
  using assms
  by (auto simp: saveMemory_cases length_replace_first split: option.splits)

lemma saveMemory_evicts_tail:
  assumes "\<not> isDuplicate s (candidate e text md)"
    and "findActiveConversation s e (candidate e text md) = None"
    and "length (memories s) = maxMemories s" and "0 < maxMemories s"
  shows "memories (snd (saveMemory e text md s)) = candidate e text md # butlast (memories s)"
proof -
  from assms(4) obtain k where k: "maxMemories s = Suc k"
    by (cases "maxMemories s") auto
  with assms(3) have "take k (memories s) = butlast (memories s)"
    by (simp add: butlast_conv_take)
  with assms k show ?thesis
    by (simp add: saveMemory_cases)
qed

lemma deleting_keeps_cap:
  assumes "length (memories s) \<le> maxMemories s"
  shows "length (memories (snd (deleteMemoryById i s))) \<le> maxMemories (snd (deleteMemoryById i s))"
    and "length (memories (deleteMemory i s)) \<le> maxMemories (deleteMemory i s)"
    and "length (memories (cleanupOldMemories e s)) \<le> maxMemories (cleanupOldMemories e s)"
    and "length (memories (clearAllMemories s)) \<le> maxMemories (clearAllMemories s)"
proof -
  show "length (memories (snd (deleteMemoryById i s))) \<le> maxMemories (snd (deleteMemoryById i s))"
    using assms by (auto simp: deleteMemoryById_def split: option.splits)
  have "length (filter p (memories s)) \<le> maxMemories s" for p
    using assms length_filter_le [of p "memories s"] by linarith
  then show "length (memories (deleteMemory i s)) \<le> maxMemories (deleteMemory i s)"
    and "length (memories (cleanupOldMemories e s)) \<le> maxMemories (cleanupOldMemories e s)"
    by (simp_all add: deleteMemory_def cleanupOldMemories_def Let_def)
  show "length (memories (clearAllMemories s)) \<le> maxMemories (clearAllMemories s)"
    by (simp add: clearAllMemories_def)
qed

text \<open>
  C8, amended: when the first save is not appended to an active conversation, that is, when
  its content is a duplicate, or no stored record is the active conversation and
  \<^verbatim>\<open>maxMemories\<close> is at least 1, saving the same content again returns
  \<^verbatim>\<open>null\<close> and leaves the engine unchanged, whatever the clock and the metadata of the
  second call. If the first content is a duplicate, the first save returns \<^verbatim>\<open>null\<close>
  too and changes nothing. If it is not, the first save returns the new record, whose
  content is the trimmed text; the record is the first of the collection, which is cut to
  \<^verbatim>\<open>maxMemories\<close>; the cache is empty; and exactly one stored record has that content.
\<close>

theorem saveMemory_twice:
  assumes "saveMemory e1 text md1 s = (r1, s1)"
    and "isDuplicate s (candidate e1 text md1)
         \<or> (findActiveConversation s e1 (candidate e1 text md1) = None \<and> 0 < maxMemories s)"
  shows "saveMemory e2 text md2 s1 = (None, s1)
         \<and> (isDuplicate s (candidate e1 text md1) \<longrightarrow> r1 = None \<and> s1 = s)
         \<and> (\<not> isDuplicate s (candidate e1 text md1) \<longrightarrow>
               r1 = Some (candidate e1 text md1)
               \<and> content (candidate e1 text md1) = trim text
               \<and> memories s1 = take (maxMemories s) (candidate e1 text md1 # memories s)
               \<and> hd (memories s1) = candidate e1 text md1
               \<and> searchCache s1 = Map.empty
               \<and> length (filter (\<lambda>m. content m = trim text) (memories s1)) = 1)"
proof (cases "isDuplicate s (candidate e1 text md1)")
  case True
  with assms(1) have "r1 = None" "s1 = s"
    by (simp_all add: saveMemory_cases)
  moreover from True have "isDuplicate s (candidate e2 text md2)"
    using isDuplicate_content [of "candidate e1 text md1" "candidate e2 text md2" s]
    by (simp add: candidate_fields)
  ultimately show ?thesis
    using True by (simp add: saveMemory_duplicate)
next
  case False
  let ?c = "candidate e1 text md1"
  from False assms(2) have idle: "findActiveConversation s e1 ?c = None"
    and cap: "0 < maxMemories s"
    by simp_all
  from cap obtain k where k: "maxMemories s = Suc k"
    by (cases "maxMemories s") auto
  from False idle assms(1) have r1: "r1 = Some ?c"
    and s1: "s1 = s\<lparr> memories :=
                     (if length (?c # memories s) > maxMemories s
                      then take (maxMemories s) (?c # memories s)
                      else ?c # memories s),
                   searchCache := Map.empty \<rparr>"
    by (simp_all add: saveMemory_cases)
  from s1 have ms: "memories s1 = take (maxMemories s) (?c # memories s)"
    by simp
  with k have front: "memories s1 = ?c # take k (memories s)"
    by simp
  then have "list_ex (\<lambda>m. content m = content (candidate e2 text md2)) (memories s1)"
    by (simp add: candidate_fields)
  then have "isDuplicate s1 (candidate e2 text md2)"
    by (auto simp: isDuplicate_def list_ex_iff)
  then have second: "saveMemory e2 text md2 s1 = (None, s1)"
    by (rule saveMemory_duplicate)
  from False have "\<forall>m\<in>set (memories s). content m \<noteq> trim text"
    by (auto simp: isDuplicate_def list_ex_iff candidate_fields)
  then have "filter (\<lambda>m. content m = trim text) (take k (memories s)) = []"
    by (auto simp: filter_empty_conv dest: in_set_takeD)
  with front have one: "length (filter (\<lambda>m. content m = trim text) (memories s1)) = 1"
    by (simp add: candidate_fields)
  from s1 have cache: "searchCache s1 = Map.empty"
    by simp
  from front have first: "hd (memories s1) = ?c"
    by simp
  have c: "content ?c = trim text"
    by (simp add: candidate_fields)
  from False second r1 c ms first one cache show ?thesis
    by blast
qed

text \<open>The examples: one stored record of the conversation that is open on the page, and
  the content \<^verbatim>\<open>python tips\<close> saved one minute and two minutes later.\<close>

lemma trim_python_tips: "trim ''python tips'' = ''python tips''"
  by code_simp

lemma word_lists:
  "word_list ''hello world'' = [''hello'', ''world'']"
  "word_list ''python tips'' = [''python'', ''tips'']"
  "word_list appended_once = [''hello'', ''world'', ''python'', ''tips'']"
  by code_simp+

lemma similarities:
  "calculateSimilarity ''hello world'' ''python tips'' = Fin 0"
  "calculateSimilarity appended_once ''python tips'' = Fin (1 / 2)"
  by (simp_all add: calculateSimilarity_def word_lists uniq_def div_counts_def)

lemma conversation_ids:
  "getCurrentConversationId (example_env 1700000060000) = ''https://chat.example.com/c/1_944444''"
  "getCurrentConversationId (example_env 1700000120000) = ''https://chat.example.com/c/1_944444''"
  by (simp_all add: getCurrentConversationId_def example_env_def show_int_def show_nat.simps)

lemma appended_once_differs: "appended_once \<noteq> ''python tips''"
  by (simp add: appended_once_def)

lemma first_save:
  "saveMemory (example_env 1700000060000) ''python tips'' [] (example_store [hello_note])
     = (Some (merge_into (example_env 1700000060000) hello_note
                (candidate (example_env 1700000060000) ''python tips'' [])),
        example_store [merge_into (example_env 1700000060000) hello_note
                (candidate (example_env 1700000060000) ''python tips'' [])])"
proof -
  let ?e = "example_env 1700000060000"
  let ?c = "candidate ?e ''python tips'' []"
  have c: "content ?c = ''python tips''"
    by (simp add: candidate_fields trim_python_tips)
  have h: "content hello_note = ''hello world''" "timestamp hello_note = 1700000000000"
    "conversationId hello_note = ''https://chat.example.com/c/1_944444''"
    by (simp_all add: hello_note_def example_memory_def)
  have nodup: "\<not> isDuplicate (example_store [hello_note]) ?c"
    by (simp add: isDuplicate_def example_store_def c h similarities)
  have act: "is_active ?e ?c hello_note"
    by (simp add: is_active_def h candidate_fields conversation_ids Let_def)
      (simp add: example_env_def)
  then have "findActiveConversation (example_store [hello_note]) ?e ?c = Some hello_note"
    by (simp add: findActiveConversation_def example_store_def)
  with nodup act show ?thesis
    by (simp add: saveMemory_cases example_store_def)
qed


lemma merge_into_fields:
  "content (merge_into e x c) = content x @ [CHR 0x0A, CHR 0x0A] @ content c"
  "conversationId (merge_into e x c) = conversationId x"
  "timestamp (merge_into e x c) = now e"
  "lastUpdated (merge_into e x c) = Some (now e)"
  "summary (merge_into e x c) = generateSummary (content x @ [CHR 0x0A, CHR 0x0A] @ content c)"
  "tags (merge_into e x c) = extractTags (content x @ [CHR 0x0A, CHR 0x0A] @ content c)"
  by (simp_all add: merge_into_def Let_def)

lemma merged_fields:
  "content (merge_into e hello_note (candidate e' ''python tips'' md)) = appended_once"
  by (simp add: merge_into_fields candidate_fields trim_python_tips hello_note_def
        example_memory_def appended_once_def)

lemma second_save:
  "saveMemory (example_env 1700000120000) ''python tips'' []
       (example_store [merge_into (example_env 1700000060000) hello_note
                (candidate (example_env 1700000060000) ''python tips'' [])])
     = (Some (merge_into (example_env 1700000120000)
                (merge_into (example_env 1700000060000) hello_note
                   (candidate (example_env 1700000060000) ''python tips'' []))
                (candidate (example_env 1700000120000) ''python tips'' [])),
        example_store [merge_into (example_env 1700000120000)
                (merge_into (example_env 1700000060000) hello_note
                   (candidate (example_env 1700000060000) ''python tips'' []))
                (candidate (example_env 1700000120000) ''python tips'' [])])"
proof -
  let ?e = "example_env 1700000120000"
  let ?c = "candidate ?e ''python tips'' []"
  let ?m = "merge_into (example_env 1700000060000) hello_note
                (candidate (example_env 1700000060000) ''python tips'' [])"
  have c: "content ?c = ''python tips''"
    by (simp add: candidate_fields trim_python_tips)
  have h: "conversationId hello_note = ''https://chat.example.com/c/1_944444''"
    by (simp add: hello_note_def example_memory_def)
  have nodup: "\<not> isDuplicate (example_store [?m]) ?c"
    by (simp add: isDuplicate_def example_store_def c merged_fields similarities
          appended_once_differs)
  have act: "is_active ?e ?c ?m"
    by (simp add: is_active_def h merge_into_fields candidate_fields conversation_ids Let_def)
      (simp add: example_env_def)
  then have "findActiveConversation (example_store [?m]) ?e ?c = Some ?m"
    by (simp add: findActiveConversation_def example_store_def)
  with nodup act show ?thesis
    by (simp add: saveMemory_cases example_store_def)
qed

text \<open>
  C8, as the code has it. The claim has the second of two identical saves rejected for
  every store. Here the first save is appended to the record of the open conversation. The
  second save is compared with the merged text: it is not equal to it, the similarity is
  1/2, and the content is appended a second time; the call returns the record.
\<close>

theorem saveMemory_twice_merge_counterexample:
  "fst (saveMemory (example_env 1700000120000) ''python tips'' []
         (snd (saveMemory (example_env 1700000060000) ''python tips'' []
                 (example_store [hello_note])))) \<noteq> None
   \<and> map content (memories (snd (saveMemory (example_env 1700000060000) ''python tips'' []
                 (example_store [hello_note])))) = [appended_once]
   \<and> map content (memories (snd (saveMemory (example_env 1700000120000) ''python tips'' []
         (snd (saveMemory (example_env 1700000060000) ''python tips'' []
                 (example_store [hello_note])))))) = [appended_twice]"
proof -
  let ?m1 = "merge_into (example_env 1700000060000) hello_note
                (candidate (example_env 1700000060000) ''python tips'' [])"
  let ?m2 = "merge_into (example_env 1700000120000) ?m1
                (candidate (example_env 1700000120000) ''python tips'' [])"
  have s1: "snd (saveMemory (example_env 1700000060000) ''python tips'' []
                 (example_store [hello_note])) = example_store [?m1]"
    by (simp add: first_save)
  have c1: "content ?m1 = appended_once"
    by (simp add: merged_fields)
  have c2: "content ?m2 = appended_twice"
    by (simp add: merge_into_fields(1) [of _ ?m1] merged_fields appended_twice_def
          candidate_fields trim_python_tips)
  show ?thesis
    by (simp only: s1 second_save) (simp add: example_store_def c1 c2)
qed

text \<open>Two uses: the stored content \<^verbatim>\<open>hello world\<close> saved again twice while its
  conversation is active, and the content \<^verbatim>\<open>python tips\<close> saved twice two hours
  later, when no conversation is active.\<close>

lemma trim_hello_world: "trim ''hello world'' = ''hello world''"
  by code_simp

theorem saveMemory_twice_witness:
  "saveMemory (example_env 1700000120000) ''hello world'' []
       (snd (saveMemory (example_env 1700000060000) ''hello world'' [] (example_store [hello_note])))
     = (None, example_store [hello_note])
   \<and> saveMemory (example_env 1700000060000) ''hello world'' [] (example_store [hello_note])
     = (None, example_store [hello_note])
   \<and> saveMemory (example_env 1700007300000) ''python tips'' []
       (snd (saveMemory (example_env 1700007200000) ''python tips'' [] (example_store [hello_note])))
     = (None, snd (saveMemory (example_env 1700007200000) ''python tips'' []
                    (example_store [hello_note])))
   \<and> fst (saveMemory (example_env 1700007200000) ''python tips'' [] (example_store [hello_note]))
     = Some (candidate (example_env 1700007200000) ''python tips'' [])
   \<and> memories (snd (saveMemory (example_env 1700007200000) ''python tips'' []
                    (example_store [hello_note])))
     = [candidate (example_env 1700007200000) ''python tips'' [], hello_note]
   \<and> length (filter (\<lambda>m. content m = ''python tips'')
         (memories (snd (saveMemory (example_env 1700007200000) ''python tips'' []
                    (example_store [hello_note]))))) = 1"
proof -
  let ?s = "example_store [hello_note]"
  let ?d = "example_env 1700000060000"
  let ?e = "example_env 1700007200000"
  have pair: "saveMemory e t md s = (fst (saveMemory e t md s), snd (saveMemory e t md s))"
    for e t md and s :: "memory engine"
    by simp
  have dup: "isDuplicate ?s (candidate ?d ''hello world'' [])"
    by (simp add: isDuplicate_def example_store_def candidate_fields trim_hello_world
          hello_note_def example_memory_def)
  then have dup_or: "isDuplicate ?s (candidate ?d ''hello world'' [])
      \<or> (findActiveConversation ?s ?d (candidate ?d ''hello world'' []) = None
          \<and> 0 < maxMemories ?s)"
    by simp
  note again = saveMemory_twice [OF pair dup_or]
  from again [THEN conjunct2, THEN conjunct1] dup
  have first: "fst (saveMemory ?d ''hello world'' [] ?s) = None"
    and same: "snd (saveMemory ?d ''hello world'' [] ?s) = ?s"
    by blast+
  then have a': "saveMemory ?d ''hello world'' [] ?s = (None, ?s)"
    by (simp add: prod_eq_iff)
  have a: "saveMemory (example_env 1700000120000) ''hello world'' []
       (snd (saveMemory ?d ''hello world'' [] ?s)) = (None, ?s)"
    using again [THEN conjunct1, of "example_env 1700000120000" "[]"]
    by (simp only: same)
  have id: "getCurrentConversationId ?e = ''https://chat.example.com/c/1_944448''"
    by (simp add: getCurrentConversationId_def example_env_def show_int_def show_nat.simps)
  have c: "content (candidate ?e ''python tips'' []) = ''python tips''"
    by (simp add: candidate_fields trim_python_tips)
  have nodup: "\<not> isDuplicate ?s (candidate ?e ''python tips'' [])"
    by (simp add: isDuplicate_def example_store_def c hello_note_def example_memory_def
          similarities)
  have idle: "findActiveConversation ?s ?e (candidate ?e ''python tips'' []) = None"
    by (simp add: findActiveConversation_def example_store_def is_active_def candidate_fields
          id hello_note_def example_memory_def Let_def)
  have cap: "0 < maxMemories ?s"
    by (simp add: example_store_def new_engine_def)
  from idle cap have idle_or: "isDuplicate ?s (candidate ?e ''python tips'' [])
      \<or> (findActiveConversation ?s ?e (candidate ?e ''python tips'' []) = None
          \<and> 0 < maxMemories ?s)"
    by simp
  note fresh = saveMemory_twice [OF pair idle_or]
  have b: "saveMemory (example_env 1700007300000) ''python tips'' []
       (snd (saveMemory ?e ''python tips'' [] ?s))
     = (None, snd (saveMemory ?e ''python tips'' [] ?s))"
    by (rule fresh [THEN conjunct1])
  from fresh [THEN conjunct2, THEN conjunct2] nodup
  have stored: "fst (saveMemory ?e ''python tips'' [] ?s) = Some (candidate ?e ''python tips'' [])"
    and list: "memories (snd (saveMemory ?e ''python tips'' [] ?s))
        = take (maxMemories ?s) (candidate ?e ''python tips'' [] # memories ?s)"
    and one: "length (filter (\<lambda>m. content m = trim ''python tips'')
         (memories (snd (saveMemory ?e ''python tips'' [] ?s)))) = 1"
    by blast+
  from list have list': "memories (snd (saveMemory ?e ''python tips'' [] ?s))
        = [candidate ?e ''python tips'' [], hello_note]"
    by (simp add: example_store_def new_engine_def)
  from one have one': "length (filter (\<lambda>m. content m = ''python tips'')
         (memories (snd (saveMemory ?e ''python tips'' [] ?s)))) = 1"
    by (simp only: trim_python_tips)
  from a a' b stored list' one' show ?thesis
    by blast
qed


subsection \<open>The search cache\<close>

text \<open>A search whose key is in the cache, less than \<^verbatim>\<open>cacheTimeout\<close> old, returns
  the cached results; a search whose key is not in the cache scores the collection as it
  is. A save that is appended to a conversation leaves the cache as it is; the other
  mutations empty it.\<close>

lemma getRelevantMemories_cached:
  assumes "query \<noteq> []" "\<not> length (trim query) < 3"
    and "searchCache s (cacheKey query limit page) = Some cached"
    and "now e - cached_at cached < cacheTimeout s"
  shows "getRelevantMemories e query limit page s = (Ranked (results cached), s)"
  using assms by (simp add: getRelevantMemories_def Let_def)

lemma getRelevantMemories_not_cached:
  assumes "query \<noteq> []" "\<not> length (trim query) < 3"
    and "searchCache s (cacheKey query limit page) = None"
  shows "fst (getRelevantMemories e query limit page s)
           = Ranked (take limit (drop (page * limit) (sort_by_score
               (filter (\<lambda>m. num_gt (score m) 0.05) (calculateTFIDFScores query (memories s))))))"
  using assms by (simp add: getRelevantMemories_def Let_def)

lemma saveMemory_merge_keeps_cache:
  assumes "\<not> isDuplicate s (candidate e text md)"
    and "findActiveConversation s e (candidate e text md) = Some existing"
  shows "searchCache (snd (saveMemory e text md s)) = searchCache s"
  using assms by (simp add: saveMemory_cases)

lemma other_mutations_clear_cache:
  "\<not> isDuplicate s (candidate e text md) \<Longrightarrow>
     findActiveConversation s e (candidate e text md) = None \<Longrightarrow>
     searchCache (snd (saveMemory e text md s)) = Map.empty"
  "searchCache (deleteMemory i s) = Map.empty"
  "fst (deleteMemoryById i s) \<Longrightarrow> searchCache (snd (deleteMemoryById i s)) = Map.empty"
  "searchCache (clearAllMemories s') = Map.empty"
  by (auto simp: saveMemory_cases deleteMemory_def deleteMemoryById_def clearAllMemories_def
        split: option.splits)

lemma import_clears_cache:
  "importMemories read_id same jsonData merge s = (Inr res, s') \<Longrightarrow> searchCache s' = Map.empty"
  by (auto simp: importMemories_def Let_def split: parsed.splits sum.splits if_splits)


text \<open>The example: two stored records without the word \<^verbatim>\<open>python\<close>, a search for
  it, a save on the same page one minute after the first record was stored, and the same
  search again.\<close>

lemma ln_2_ge_half: "1 / 2 \<le> ln (2::real)"
proof -
  have "exp (1 / 2 :: real) \<le> 1 + 2 * (1 / 2)"
    by (rule real_exp_bound_lemma) simp_all
  then have "exp (1 / 2 :: real) \<le> 2" by simp
  then show ?thesis using ln_ge_iff [of 2 "1 / 2"] by linarith
qed

lemma trim_python: "trim ''python'' = ''python''"
  by code_simp

lemma python_query_terms: "preprocessText ''python'' = [''python'']"
  by code_simp

lemma note_terms:
  "preprocessText (document_text hello_note) = [''hello'', ''world'', ''hello'', ''world'']"
  "preprocessText (document_text words_note) = [''words'', ''words'']"
  by code_simp+

lemma appended_once_terms:
  "preprocessText (appended_once @ '' '' @ generateSummary appended_once @ '' ''
      @ join '' '' (extractTags appended_once))
     = [''hello'', ''world'', ''python'', ''tips'', ''hello'', ''world'', ''python'', ''tips'',
        ''python'']"
  by code_simp

lemma python_cache_key: "cacheKey ''python'' 5 0 = ''python_5_0''"
  by (simp add: cacheKey_def show_nat.simps)

lemma more_similarities:
  "calculateSimilarity ''other words here'' ''python tips'' = Fin 0"
proof -
  have "word_list ''other words here'' = [''other'', ''words'', ''here'']"
    by code_simp
  then show ?thesis
    by (simp add: calculateSimilarity_def word_lists uniq_def div_counts_def)
qed

lemma python_not_inherited: "\<not> inherited_key ''python''"
  by (simp add: inherited_key_def)

lemma scores_before:
  "calculateTFIDFScores ''python'' [hello_note, words_note]
     = [\<lparr> doc = hello_note, terms = [''hello'', ''world'', ''hello'', ''world''], score = Fin 0 \<rparr>,
        \<lparr> doc = words_note, terms = [''words'', ''words''], score = Fin 0 \<rparr>]"
  by (simp add: calculateTFIDFScores_def python_query_terms note_terms Let_def
        calculateDocumentScore_def getTermFrequencies_count python_not_inherited
        calculateIDF_def num_mul_def num_add_def)

lemma first_search:
  "getRelevantMemories (example_env 1700000030000) ''python'' 5 0
       (example_store [hello_note, words_note])
     = (Ranked [],
        (example_store [hello_note, words_note])
          \<lparr> searchCache := [''python_5_0'' \<mapsto> \<lparr> results = [], cached_at = 1700000030000 \<rparr>] \<rparr>)"
proof -
  have m: "memories (example_store [hello_note, words_note]) = [hello_note, words_note]"
    "searchCache (example_store [hello_note, words_note]) = Map.empty"
    by (simp_all add: example_store_def new_engine_def)
  show ?thesis
    by (simp add: getRelevantMemories_def trim_python python_cache_key m scores_before Let_def
          sort_by_score_def)
      (simp add: example_env_def)
qed

lemma merging_save:
  "saveMemory (example_env 1700000060000) ''python tips'' []
       ((example_store [hello_note, words_note]) \<lparr> searchCache := c \<rparr>)
     = (Some (merge_into (example_env 1700000060000) hello_note
                (candidate (example_env 1700000060000) ''python tips'' [])),
        (example_store [merge_into (example_env 1700000060000) hello_note
                          (candidate (example_env 1700000060000) ''python tips'' []),
                        words_note]) \<lparr> searchCache := c \<rparr>)"
proof -
  let ?e = "example_env 1700000060000"
  let ?c = "candidate ?e ''python tips'' []"
  let ?s = "(example_store [hello_note, words_note]) \<lparr> searchCache := c \<rparr>"
  have c: "content ?c = ''python tips''"
    by (simp add: candidate_fields trim_python_tips)
  have h: "content hello_note = ''hello world''" "timestamp hello_note = 1700000000000"
    "conversationId hello_note = ''https://chat.example.com/c/1_944444''"
    "content words_note = ''other words here''"
    by (simp_all add: hello_note_def words_note_def example_memory_def)
  have nodup: "\<not> isDuplicate ?s ?c"
    by (simp add: isDuplicate_def example_store_def c h similarities more_similarities)
  have act: "is_active ?e ?c hello_note"
    by (simp add: is_active_def h candidate_fields conversation_ids Let_def)
      (simp add: example_env_def)
  then have "findActiveConversation ?s ?e ?c = Some hello_note"
    by (simp add: findActiveConversation_def example_store_def)
  with nodup act show ?thesis
    by (simp add: saveMemory_cases example_store_def)
qed

lemma merged_terms:
  "preprocessText (document_text (merge_into e hello_note (candidate e' ''python tips'' md)))
     = [''hello'', ''world'', ''python'', ''tips'', ''hello'', ''world'', ''python'', ''tips'',
        ''python'']"
proof -
  have "content hello_note @ [CHR 0x0A, CHR 0x0A] @ content (candidate e' ''python tips'' md)
          = appended_once"
    by (simp add: candidate_fields trim_python_tips hello_note_def example_memory_def
          appended_once_def)
  then have "document_text (merge_into e hello_note (candidate e' ''python tips'' md))
          = appended_once @ '' '' @ generateSummary appended_once @ '' ''
              @ join '' '' (extractTags appended_once)"
    by (simp only: document_text_def merge_into_fields)
  then show ?thesis
    by (simp only: appended_once_terms)
qed

lemma scores_after:
  "calculateTFIDFScores ''python''
       [merge_into e hello_note (candidate e' ''python tips'' md), words_note]
     = [\<lparr> doc = merge_into e hello_note (candidate e' ''python tips'' md),
          terms = [''hello'', ''world'', ''python'', ''tips'', ''hello'', ''world'', ''python'',
                   ''tips'', ''python''],
          score = Fin (ln 2 / 3) \<rparr>,
        \<lparr> doc = words_note, terms = [''words'', ''words''], score = Fin 0 \<rparr>]"
  by (simp add: calculateTFIDFScores_def python_query_terms note_terms merged_terms Let_def
        calculateDocumentScore_def getTermFrequencies_count python_not_inherited
        calculateIDF_def num_mul_def num_add_def)


text \<open>
  C1, at a concrete input. The search for \<^verbatim>\<open>python\<close> finds nothing and caches that.
  The save of \<^verbatim>\<open>python tips\<close> is appended to the first record, so the collection
  changes. The same search a minute later returns the cached empty result, while the
  collection as it is now gives the merged record with the score \<open>ln 2 / 3\<close>: on the
  merging path \<^verbatim>\<open>saveMemory\<close> does not clear the cache.
\<close>

theorem merge_leaves_stale_cache:
  "fst (getRelevantMemories (example_env 1700000030000) ''python'' 5 0
          (example_store [hello_note, words_note])) = Ranked []
   \<and> map content (memories searched_store) = [''hello world'', ''other words here'']
   \<and> map content (memories merged_store) = [appended_once, ''other words here'']
   \<and> fst (getRelevantMemories (example_env 1700000090000) ''python'' 5 0 merged_store)
       = Ranked []
   \<and> fst (getRelevantMemories (example_env 1700000090000) ''python'' 5 0
            (merged_store \<lparr> searchCache := Map.empty \<rparr>))
       = Ranked [\<lparr> doc = merge_into (example_env 1700000060000) hello_note
                         (candidate (example_env 1700000060000) ''python tips'' []),
                  terms = [''hello'', ''world'', ''python'', ''tips'', ''hello'', ''world'',
                           ''python'', ''tips'', ''python''],
                  score = Fin (ln 2 / 3) \<rparr>]"
proof -
  let ?m = "merge_into (example_env 1700000060000) hello_note
              (candidate (example_env 1700000060000) ''python tips'' [])"
  let ?cache = "[''python_5_0'' \<mapsto> \<lparr> results = [] :: memory scored list,
                                    cached_at = 1700000030000 \<rparr>]"
  have s1: "searched_store = (example_store [hello_note, words_note]) \<lparr> searchCache := ?cache \<rparr>"
    by (simp add: searched_store_def first_search)
  have s2: "merged_store = (example_store [?m, words_note]) \<lparr> searchCache := ?cache \<rparr>"
    by (simp add: merged_store_def s1 merging_save)
  have before: "fst (getRelevantMemories (example_env 1700000030000) ''python'' 5 0
          (example_store [hello_note, words_note])) = Ranked []"
    by (simp add: first_search)
  have c1: "map content (memories searched_store) = [''hello world'', ''other words here'']"
    by (simp add: s1 example_store_def hello_note_def words_note_def example_memory_def)
  have c2: "map content (memories merged_store) = [appended_once, ''other words here'']"
    by (simp add: s2 example_store_def merged_fields words_note_def example_memory_def)
  have "getRelevantMemories (example_env 1700000090000) ''python'' 5 0 merged_store
          = (Ranked (results \<lparr> results = [] :: memory scored list,
                               cached_at = 1700000030000 \<rparr>), merged_store)"
    by (rule getRelevantMemories_cached)
      (simp_all add: trim_python python_cache_key s2 example_store_def new_engine_def
         example_env_def)
  then have stale: "fst (getRelevantMemories (example_env 1700000090000) ''python'' 5 0
      merged_store) = Ranked []"
    by simp
  have "(1 / 20 :: real) < ln 2 / 3"
    using ln_2_ge_half by linarith
  then have kept: "filter (\<lambda>m. num_gt (score m) (1 / 20))
          (calculateTFIDFScores ''python'' [?m, words_note])
        = [\<lparr> doc = ?m,
             terms = [''hello'', ''world'', ''python'', ''tips'', ''hello'', ''world'',
                      ''python'', ''tips'', ''python''],
             score = Fin (ln 2 / 3) \<rparr>]"
    by (simp add: scores_after)
  have fresh: "fst (getRelevantMemories (example_env 1700000090000) ''python'' 5 0
            (merged_store \<lparr> searchCache := Map.empty \<rparr>))
       = Ranked [\<lparr> doc = ?m,
                  terms = [''hello'', ''world'', ''python'', ''tips'', ''hello'', ''world'',
                           ''python'', ''tips'', ''python''],
                  score = Fin (ln 2 / 3) \<rparr>]"
    by (simp add: getRelevantMemories_not_cached trim_python s2 example_store_def kept
          sort_by_score_def)
  from before c1 c2 stale fresh show ?thesis by blast
qed

end
